theory Spec2Isabelle
  imports Main "HOL-Library.Word"
begin

unbundle bit_operations_syntax

section \<open>Fatal errors\<close>

text \<open>
  \<^verbatim>\<open>report_fatal_error(msg)\<close> never returns to its caller. A function that can reach it
  returns \<open>fatal + 'a\<close>: \<open>Inl (Fatal msg)\<close> is the call of \<^verbatim>\<open>report_fatal_error\<close> with
  that message, \<open>Inr\<close> the value of a \<^verbatim>\<open>return\<close>.
\<close>

datatype fatal = Fatal string

section \<open>Enum translation\<close>

text \<open>
  The enums this file declares itself (\<^verbatim>\<open>enum class\<close>, underlying type \<^verbatim>\<open>int\<close>) arrive
  from the caller as plain integers, so the model keeps them as \<open>int\<close> and names the
  enumerators by their values. A \<^verbatim>\<open>switch\<close> over them is the chain of comparisons with
  the case labels, in the order of the source.

  The enums of the backend appear by name only: each is a datatype of the enumerators the
  source names, with one more constructor for every other value of the backend's enum
  (the \<^verbatim>\<open>default\<close> branch of a \<^verbatim>\<open>switch\<close> over it).
\<close>

subsection \<open>Atomic ordering\<close>

text \<open>
  \<^verbatim>\<open>LLVMAtomicOrdering\<close> is declared by the backend's C header, which is not part of the
  sources at hand: its enumerators are known by name, and their numeric values are the
  parameter \<open>enc\<close>.
\<close>

datatype LLVMAtomicOrdering_name =
    LLVMAtomicOrderingNotAtomic
  | LLVMAtomicOrderingUnordered
  | LLVMAtomicOrderingMonotonic
  | LLVMAtomicOrderingAcquire
  | LLVMAtomicOrderingRelease
  | LLVMAtomicOrderingAcquireRelease
  | LLVMAtomicOrderingSequentiallyConsistent

definition LLVMAtomicOrdering_names :: "LLVMAtomicOrdering_name list" where
  "LLVMAtomicOrdering_names =
     [LLVMAtomicOrderingNotAtomic, LLVMAtomicOrderingUnordered, LLVMAtomicOrderingMonotonic,
      LLVMAtomicOrderingAcquire, LLVMAtomicOrderingRelease, LLVMAtomicOrderingAcquireRelease,
      LLVMAtomicOrderingSequentiallyConsistent]"

datatype AtomicOrdering =
    AtomicOrdering_NotAtomic
  | AtomicOrdering_Unordered
  | AtomicOrdering_Monotonic
  | AtomicOrdering_Acquire
  | AtomicOrdering_Release
  | AtomicOrdering_AcquireRelease
  | AtomicOrdering_SequentiallyConsistent

definition fromRust_LLVMAtomicOrdering ::
  "(LLVMAtomicOrdering_name \<Rightarrow> int) \<Rightarrow> int \<Rightarrow> fatal + AtomicOrdering" where
  "fromRust_LLVMAtomicOrdering enc Ordering =
     (if Ordering = enc LLVMAtomicOrderingNotAtomic then Inr AtomicOrdering_NotAtomic
      else if Ordering = enc LLVMAtomicOrderingUnordered then Inr AtomicOrdering_Unordered
      else if Ordering = enc LLVMAtomicOrderingMonotonic then Inr AtomicOrdering_Monotonic
      else if Ordering = enc LLVMAtomicOrderingAcquire then Inr AtomicOrdering_Acquire
      else if Ordering = enc LLVMAtomicOrderingRelease then Inr AtomicOrdering_Release
      else if Ordering = enc LLVMAtomicOrderingAcquireRelease
        then Inr AtomicOrdering_AcquireRelease
      else if Ordering = enc LLVMAtomicOrderingSequentiallyConsistent
        then Inr AtomicOrdering_SequentiallyConsistent
      else Inl (Fatal ''Invalid LLVMAtomicOrdering value!''))"

text \<open>A numbering of the enumerators to run the translation on: the one of llvm-c/Core.h.\<close>

fun llvm_c_AtomicOrdering :: "LLVMAtomicOrdering_name \<Rightarrow> int" where
  "llvm_c_AtomicOrdering LLVMAtomicOrderingNotAtomic = 0"
| "llvm_c_AtomicOrdering LLVMAtomicOrderingUnordered = 1"
| "llvm_c_AtomicOrdering LLVMAtomicOrderingMonotonic = 2"
| "llvm_c_AtomicOrdering LLVMAtomicOrderingAcquire = 4"
| "llvm_c_AtomicOrdering LLVMAtomicOrderingRelease = 5"
| "llvm_c_AtomicOrdering LLVMAtomicOrderingAcquireRelease = 6"
| "llvm_c_AtomicOrdering LLVMAtomicOrderingSequentiallyConsistent = 7"

subsection \<open>Attribute kinds\<close>

text \<open>
  \<^verbatim>\<open>LLVMRustAttribute\<close> is declared in LLVMWrapper.h, which is not part of the sources at
  hand: its enumerators are the case labels of the \<^verbatim>\<open>switch\<close>, and their numeric values
  are the parameter \<open>enc\<close>.
\<close>

datatype LLVMRustAttribute_name =
    AlwaysInline | ByVal | Cold | InlineHint | MinSize | Naked | NoAlias | NoCapture
  | NoInline | NonNull | NoRedZone | NoReturn | NoUnwind | OptimizeForSize | ReadOnly
  | SExt | StructRet | UWTable | ZExt | InReg | SanitizeThread | SanitizeAddress
  | SanitizeMemory | NonLazyBind | OptimizeNone | ReturnsTwice | ReadNone
  | InaccessibleMemOnly

definition LLVMRustAttribute_names :: "LLVMRustAttribute_name list" where
  "LLVMRustAttribute_names =
     [AlwaysInline, ByVal, Cold, InlineHint, MinSize, Naked, NoAlias, NoCapture,
      NoInline, NonNull, NoRedZone, NoReturn, NoUnwind, OptimizeForSize, ReadOnly,
      SExt, StructRet, UWTable, ZExt, InReg, SanitizeThread, SanitizeAddress,
      SanitizeMemory, NonLazyBind, OptimizeNone, ReturnsTwice, ReadNone,
      InaccessibleMemOnly]"

datatype AttrKind =
    Attribute_AlwaysInline | Attribute_ByVal | Attribute_Cold | Attribute_InlineHint
  | Attribute_MinSize | Attribute_Naked | Attribute_NoAlias | Attribute_NoCapture
  | Attribute_NoInline | Attribute_NonNull | Attribute_NoRedZone | Attribute_NoReturn
  | Attribute_NoUnwind | Attribute_OptimizeForSize | Attribute_ReadOnly | Attribute_SExt
  | Attribute_StructRet | Attribute_UWTable | Attribute_ZExt | Attribute_InReg
  | Attribute_SanitizeThread | Attribute_SanitizeAddress | Attribute_SanitizeMemory
  | Attribute_NonLazyBind | Attribute_OptimizeNone | Attribute_ReturnsTwice
  | Attribute_ReadNone | Attribute_InaccessibleMemOnly

definition fromRust_LLVMRustAttribute ::
  "(LLVMRustAttribute_name \<Rightarrow> int) \<Rightarrow> int \<Rightarrow> fatal + AttrKind" where
  "fromRust_LLVMRustAttribute enc Kind =
     (if Kind = enc AlwaysInline then Inr Attribute_AlwaysInline
      else if Kind = enc ByVal then Inr Attribute_ByVal
      else if Kind = enc Cold then Inr Attribute_Cold
      else if Kind = enc InlineHint then Inr Attribute_InlineHint
      else if Kind = enc MinSize then Inr Attribute_MinSize
      else if Kind = enc Naked then Inr Attribute_Naked
      else if Kind = enc NoAlias then Inr Attribute_NoAlias
      else if Kind = enc NoCapture then Inr Attribute_NoCapture
      else if Kind = enc NoInline then Inr Attribute_NoInline
      else if Kind = enc NonNull then Inr Attribute_NonNull
      else if Kind = enc NoRedZone then Inr Attribute_NoRedZone
      else if Kind = enc NoReturn then Inr Attribute_NoReturn
      else if Kind = enc NoUnwind then Inr Attribute_NoUnwind
      else if Kind = enc OptimizeForSize then Inr Attribute_OptimizeForSize
      else if Kind = enc ReadOnly then Inr Attribute_ReadOnly
      else if Kind = enc SExt then Inr Attribute_SExt
      else if Kind = enc StructRet then Inr Attribute_StructRet
      else if Kind = enc UWTable then Inr Attribute_UWTable
      else if Kind = enc ZExt then Inr Attribute_ZExt
      else if Kind = enc InReg then Inr Attribute_InReg
      else if Kind = enc SanitizeThread then Inr Attribute_SanitizeThread
      else if Kind = enc SanitizeAddress then Inr Attribute_SanitizeAddress
      else if Kind = enc SanitizeMemory then Inr Attribute_SanitizeMemory
      else if Kind = enc NonLazyBind then Inr Attribute_NonLazyBind
      else if Kind = enc OptimizeNone then Inr Attribute_OptimizeNone
      else if Kind = enc ReturnsTwice then Inr Attribute_ReturnsTwice
      else if Kind = enc ReadNone then Inr Attribute_ReadNone
      else if Kind = enc InaccessibleMemOnly then Inr Attribute_InaccessibleMemOnly
      else Inl (Fatal ''bad AttributeKind''))"

text \<open>A numbering of the attribute enumerators to run the translation on: their position
  among the case labels.\<close>

fun index_of :: "'a \<Rightarrow> 'a list \<Rightarrow> int" where
  "index_of x [] = 0"
| "index_of x (y # ys) = (if x = y then 0 else 1 + index_of x ys)"

definition LLVMRustAttribute_position :: "LLVMRustAttribute_name \<Rightarrow> int" where
  "LLVMRustAttribute_position a = index_of a LLVMRustAttribute_names"

subsection \<open>Synchronization scope, asm dialect\<close>

abbreviation (input) LLVMRustSynchronizationScope_SingleThread :: int where
  "LLVMRustSynchronizationScope_SingleThread \<equiv> 0"
abbreviation (input) LLVMRustSynchronizationScope_CrossThread :: int where
  "LLVMRustSynchronizationScope_CrossThread \<equiv> 1"

definition LLVMRustSynchronizationScope_enumerators :: "int list" where
  "LLVMRustSynchronizationScope_enumerators =
     [LLVMRustSynchronizationScope_SingleThread, LLVMRustSynchronizationScope_CrossThread]"

datatype SyncScope_ID = SyncScope_SingleThread | SyncScope_System

definition fromRust_LLVMRustSynchronizationScope :: "int \<Rightarrow> fatal + SyncScope_ID" where
  "fromRust_LLVMRustSynchronizationScope Scope =
     (if Scope = LLVMRustSynchronizationScope_SingleThread then Inr SyncScope_SingleThread
      else if Scope = LLVMRustSynchronizationScope_CrossThread then Inr SyncScope_System
      else Inl (Fatal ''bad SynchronizationScope.''))"

abbreviation (input) LLVMRustAsmDialect_Att :: int where
  "LLVMRustAsmDialect_Att \<equiv> 0"
abbreviation (input) LLVMRustAsmDialect_Intel :: int where
  "LLVMRustAsmDialect_Intel \<equiv> 1"

definition LLVMRustAsmDialect_enumerators :: "int list" where
  "LLVMRustAsmDialect_enumerators = [LLVMRustAsmDialect_Att, LLVMRustAsmDialect_Intel]"

datatype AsmDialect = AD_ATT | AD_Intel

definition fromRust_LLVMRustAsmDialect :: "int \<Rightarrow> fatal + AsmDialect" where
  "fromRust_LLVMRustAsmDialect Dialect =
     (if Dialect = LLVMRustAsmDialect_Att then Inr AD_ATT
      else if Dialect = LLVMRustAsmDialect_Intel then Inr AD_Intel
      else Inl (Fatal ''bad AsmDialect.''))"

subsection \<open>Debug emission kind, checksum kind\<close>

abbreviation (input) LLVMRustDebugEmissionKind_NoDebug :: int where
  "LLVMRustDebugEmissionKind_NoDebug \<equiv> 0"
abbreviation (input) LLVMRustDebugEmissionKind_FullDebug :: int where
  "LLVMRustDebugEmissionKind_FullDebug \<equiv> 1"
abbreviation (input) LLVMRustDebugEmissionKind_LineTablesOnly :: int where
  "LLVMRustDebugEmissionKind_LineTablesOnly \<equiv> 2"

definition LLVMRustDebugEmissionKind_enumerators :: "int list" where
  "LLVMRustDebugEmissionKind_enumerators =
     [LLVMRustDebugEmissionKind_NoDebug, LLVMRustDebugEmissionKind_FullDebug,
      LLVMRustDebugEmissionKind_LineTablesOnly]"

datatype DebugEmissionKind =
  DebugEmissionKind_NoDebug | DebugEmissionKind_FullDebug | DebugEmissionKind_LineTablesOnly

definition fromRust_LLVMRustDebugEmissionKind :: "int \<Rightarrow> fatal + DebugEmissionKind" where
  "fromRust_LLVMRustDebugEmissionKind Kind =
     (if Kind = LLVMRustDebugEmissionKind_NoDebug then Inr DebugEmissionKind_NoDebug
      else if Kind = LLVMRustDebugEmissionKind_FullDebug then Inr DebugEmissionKind_FullDebug
      else if Kind = LLVMRustDebugEmissionKind_LineTablesOnly
        then Inr DebugEmissionKind_LineTablesOnly
      else Inl (Fatal ''bad DebugEmissionKind.''))"

abbreviation (input) LLVMRustChecksumKind_None :: int where
  "LLVMRustChecksumKind_None \<equiv> 0"
abbreviation (input) LLVMRustChecksumKind_MD5 :: int where
  "LLVMRustChecksumKind_MD5 \<equiv> 1"
abbreviation (input) LLVMRustChecksumKind_SHA1 :: int where
  "LLVMRustChecksumKind_SHA1 \<equiv> 2"

definition LLVMRustChecksumKind_enumerators :: "int list" where
  "LLVMRustChecksumKind_enumerators =
     [LLVMRustChecksumKind_None, LLVMRustChecksumKind_MD5, LLVMRustChecksumKind_SHA1]"

datatype ChecksumKind = CSK_MD5 | CSK_SHA1

text \<open>The result is an \<^verbatim>\<open>Optional<DIFile::ChecksumKind>\<close>: \<open>None\<close> is the empty one.\<close>

definition fromRust_LLVMRustChecksumKind :: "int \<Rightarrow> fatal + ChecksumKind option" where
  "fromRust_LLVMRustChecksumKind Kind =
     (if Kind = LLVMRustChecksumKind_None then Inr None
      else if Kind = LLVMRustChecksumKind_MD5 then Inr (Some CSK_MD5)
      else if Kind = LLVMRustChecksumKind_SHA1 then Inr (Some CSK_SHA1)
      else Inl (Fatal ''bad ChecksumKind.''))"

subsection \<open>Linkage\<close>

abbreviation (input) LLVMRustLinkage_ExternalLinkage :: int where
  "LLVMRustLinkage_ExternalLinkage \<equiv> 0"
abbreviation (input) LLVMRustLinkage_AvailableExternallyLinkage :: int where
  "LLVMRustLinkage_AvailableExternallyLinkage \<equiv> 1"
abbreviation (input) LLVMRustLinkage_LinkOnceAnyLinkage :: int where
  "LLVMRustLinkage_LinkOnceAnyLinkage \<equiv> 2"
abbreviation (input) LLVMRustLinkage_LinkOnceODRLinkage :: int where
  "LLVMRustLinkage_LinkOnceODRLinkage \<equiv> 3"
abbreviation (input) LLVMRustLinkage_WeakAnyLinkage :: int where
  "LLVMRustLinkage_WeakAnyLinkage \<equiv> 4"
abbreviation (input) LLVMRustLinkage_WeakODRLinkage :: int where
  "LLVMRustLinkage_WeakODRLinkage \<equiv> 5"
abbreviation (input) LLVMRustLinkage_AppendingLinkage :: int where
  "LLVMRustLinkage_AppendingLinkage \<equiv> 6"
abbreviation (input) LLVMRustLinkage_InternalLinkage :: int where
  "LLVMRustLinkage_InternalLinkage \<equiv> 7"
abbreviation (input) LLVMRustLinkage_PrivateLinkage :: int where
  "LLVMRustLinkage_PrivateLinkage \<equiv> 8"
abbreviation (input) LLVMRustLinkage_ExternalWeakLinkage :: int where
  "LLVMRustLinkage_ExternalWeakLinkage \<equiv> 9"
abbreviation (input) LLVMRustLinkage_CommonLinkage :: int where
  "LLVMRustLinkage_CommonLinkage \<equiv> 10"

definition LLVMRustLinkage_enumerators :: "int list" where
  "LLVMRustLinkage_enumerators =
     [LLVMRustLinkage_ExternalLinkage, LLVMRustLinkage_AvailableExternallyLinkage,
      LLVMRustLinkage_LinkOnceAnyLinkage, LLVMRustLinkage_LinkOnceODRLinkage,
      LLVMRustLinkage_WeakAnyLinkage, LLVMRustLinkage_WeakODRLinkage,
      LLVMRustLinkage_AppendingLinkage, LLVMRustLinkage_InternalLinkage,
      LLVMRustLinkage_PrivateLinkage, LLVMRustLinkage_ExternalWeakLinkage,
      LLVMRustLinkage_CommonLinkage]"

datatype LLVMLinkage =
    LLVMExternalLinkage
  | LLVMAvailableExternallyLinkage
  | LLVMLinkOnceAnyLinkage
  | LLVMLinkOnceODRLinkage
  | LLVMWeakAnyLinkage
  | LLVMWeakODRLinkage
  | LLVMAppendingLinkage
  | LLVMInternalLinkage
  | LLVMPrivateLinkage
  | LLVMExternalWeakLinkage
  | LLVMCommonLinkage
  | LLVMLinkage_other int

fun toRust_LLVMLinkage :: "LLVMLinkage \<Rightarrow> fatal + int" where
  "toRust_LLVMLinkage LLVMExternalLinkage = Inr LLVMRustLinkage_ExternalLinkage"
| "toRust_LLVMLinkage LLVMAvailableExternallyLinkage =
     Inr LLVMRustLinkage_AvailableExternallyLinkage"
| "toRust_LLVMLinkage LLVMLinkOnceAnyLinkage = Inr LLVMRustLinkage_LinkOnceAnyLinkage"
| "toRust_LLVMLinkage LLVMLinkOnceODRLinkage = Inr LLVMRustLinkage_LinkOnceODRLinkage"
| "toRust_LLVMLinkage LLVMWeakAnyLinkage = Inr LLVMRustLinkage_WeakAnyLinkage"
| "toRust_LLVMLinkage LLVMWeakODRLinkage = Inr LLVMRustLinkage_WeakODRLinkage"
| "toRust_LLVMLinkage LLVMAppendingLinkage = Inr LLVMRustLinkage_AppendingLinkage"
| "toRust_LLVMLinkage LLVMInternalLinkage = Inr LLVMRustLinkage_InternalLinkage"
| "toRust_LLVMLinkage LLVMPrivateLinkage = Inr LLVMRustLinkage_PrivateLinkage"
| "toRust_LLVMLinkage LLVMExternalWeakLinkage = Inr LLVMRustLinkage_ExternalWeakLinkage"
| "toRust_LLVMLinkage LLVMCommonLinkage = Inr LLVMRustLinkage_CommonLinkage"
| "toRust_LLVMLinkage (LLVMLinkage_other k) = Inl (Fatal ''Invalid LLVMRustLinkage value!'')"

definition fromRust_LLVMRustLinkage :: "int \<Rightarrow> fatal + LLVMLinkage" where
  "fromRust_LLVMRustLinkage Linkage =
     (if Linkage = LLVMRustLinkage_ExternalLinkage then Inr LLVMExternalLinkage
      else if Linkage = LLVMRustLinkage_AvailableExternallyLinkage
        then Inr LLVMAvailableExternallyLinkage
      else if Linkage = LLVMRustLinkage_LinkOnceAnyLinkage then Inr LLVMLinkOnceAnyLinkage
      else if Linkage = LLVMRustLinkage_LinkOnceODRLinkage then Inr LLVMLinkOnceODRLinkage
      else if Linkage = LLVMRustLinkage_WeakAnyLinkage then Inr LLVMWeakAnyLinkage
      else if Linkage = LLVMRustLinkage_WeakODRLinkage then Inr LLVMWeakODRLinkage
      else if Linkage = LLVMRustLinkage_AppendingLinkage then Inr LLVMAppendingLinkage
      else if Linkage = LLVMRustLinkage_InternalLinkage then Inr LLVMInternalLinkage
      else if Linkage = LLVMRustLinkage_PrivateLinkage then Inr LLVMPrivateLinkage
      else if Linkage = LLVMRustLinkage_ExternalWeakLinkage then Inr LLVMExternalWeakLinkage
      else if Linkage = LLVMRustLinkage_CommonLinkage then Inr LLVMCommonLinkage
      else Inl (Fatal ''Invalid LLVMRustLinkage value!''))"

subsection \<open>Visibility\<close>

abbreviation (input) LLVMRustVisibility_Default :: int where
  "LLVMRustVisibility_Default \<equiv> 0"
abbreviation (input) LLVMRustVisibility_Hidden :: int where
  "LLVMRustVisibility_Hidden \<equiv> 1"
abbreviation (input) LLVMRustVisibility_Protected :: int where
  "LLVMRustVisibility_Protected \<equiv> 2"

definition LLVMRustVisibility_enumerators :: "int list" where
  "LLVMRustVisibility_enumerators =
     [LLVMRustVisibility_Default, LLVMRustVisibility_Hidden, LLVMRustVisibility_Protected]"

datatype LLVMVisibility =
    LLVMDefaultVisibility
  | LLVMHiddenVisibility
  | LLVMProtectedVisibility
  | LLVMVisibility_other int

fun toRust_LLVMVisibility :: "LLVMVisibility \<Rightarrow> fatal + int" where
  "toRust_LLVMVisibility LLVMDefaultVisibility = Inr LLVMRustVisibility_Default"
| "toRust_LLVMVisibility LLVMHiddenVisibility = Inr LLVMRustVisibility_Hidden"
| "toRust_LLVMVisibility LLVMProtectedVisibility = Inr LLVMRustVisibility_Protected"
| "toRust_LLVMVisibility (LLVMVisibility_other k) =
     Inl (Fatal ''Invalid LLVMRustVisibility value!'')"

definition fromRust_LLVMRustVisibility :: "int \<Rightarrow> fatal + LLVMVisibility" where
  "fromRust_LLVMRustVisibility Vis =
     (if Vis = LLVMRustVisibility_Default then Inr LLVMDefaultVisibility
      else if Vis = LLVMRustVisibility_Hidden then Inr LLVMHiddenVisibility
      else if Vis = LLVMRustVisibility_Protected then Inr LLVMProtectedVisibility
      else Inl (Fatal ''Invalid LLVMRustVisibility value!''))"

text \<open>
  \<^verbatim>\<open>toRust(fromRust(x))\<close>: the inner call's fatal error ends the program, so the outer call
  runs only on a returned value.
\<close>

definition roundtrip_Linkage :: "int \<Rightarrow> fatal + int" where
  "roundtrip_Linkage x =
     (case fromRust_LLVMRustLinkage x of Inl e \<Rightarrow> Inl e | Inr l \<Rightarrow> toRust_LLVMLinkage l)"

definition roundtrip_Visibility :: "int \<Rightarrow> fatal + int" where
  "roundtrip_Visibility x =
     (case fromRust_LLVMRustVisibility x of Inl e \<Rightarrow> Inl e | Inr v \<Rightarrow> toRust_LLVMVisibility v)"

subsection \<open>Diagnostic kinds\<close>

datatype LLVMRustDiagnosticKind =
    LLVMRustDiagnosticKind_Other
  | LLVMRustDiagnosticKind_InlineAsm
  | LLVMRustDiagnosticKind_StackSize
  | LLVMRustDiagnosticKind_DebugMetadataVersion
  | LLVMRustDiagnosticKind_SampleProfile
  | LLVMRustDiagnosticKind_OptimizationRemark
  | LLVMRustDiagnosticKind_OptimizationRemarkMissed
  | LLVMRustDiagnosticKind_OptimizationRemarkAnalysis
  | LLVMRustDiagnosticKind_OptimizationRemarkAnalysisFPCommute
  | LLVMRustDiagnosticKind_OptimizationRemarkAnalysisAliasing
  | LLVMRustDiagnosticKind_OptimizationRemarkOther
  | LLVMRustDiagnosticKind_OptimizationFailure
  | LLVMRustDiagnosticKind_PGOProfile
  | LLVMRustDiagnosticKind_Linker
  | LLVMRustDiagnosticKind_Unsupported

text \<open>
  The backend's \<^verbatim>\<open>DiagnosticKind\<close>: the enumerators that are case labels, and \<open>DK_other k\<close>
  for a kind of numeric value \<open>k\<close> that is none of them.
\<close>

datatype DiagnosticKind =
    DK_InlineAsm
  | DK_StackSize
  | DK_DebugMetadataVersion
  | DK_SampleProfile
  | DK_OptimizationRemark
  | DK_OptimizationRemarkMissed
  | DK_OptimizationRemarkAnalysis
  | DK_OptimizationRemarkAnalysisFPCommute
  | DK_OptimizationRemarkAnalysisAliasing
  | DK_PGOProfile
  | DK_Linker
  | DK_Unsupported
  | DK_other int

text \<open>\<open>DK_FirstRemark\<close> and \<open>DK_LastRemark\<close> are the backend's bounds of the remark kinds.\<close>

fun toRust_DiagnosticKind :: "int \<Rightarrow> int \<Rightarrow> DiagnosticKind \<Rightarrow> LLVMRustDiagnosticKind" where
  "toRust_DiagnosticKind DK_FirstRemark DK_LastRemark DK_InlineAsm =
     LLVMRustDiagnosticKind_InlineAsm"
| "toRust_DiagnosticKind DK_FirstRemark DK_LastRemark DK_StackSize =
     LLVMRustDiagnosticKind_StackSize"
| "toRust_DiagnosticKind DK_FirstRemark DK_LastRemark DK_DebugMetadataVersion =
     LLVMRustDiagnosticKind_DebugMetadataVersion"
| "toRust_DiagnosticKind DK_FirstRemark DK_LastRemark DK_SampleProfile =
     LLVMRustDiagnosticKind_SampleProfile"
| "toRust_DiagnosticKind DK_FirstRemark DK_LastRemark DK_OptimizationRemark =
     LLVMRustDiagnosticKind_OptimizationRemark"
| "toRust_DiagnosticKind DK_FirstRemark DK_LastRemark DK_OptimizationRemarkMissed =
     LLVMRustDiagnosticKind_OptimizationRemarkMissed"
| "toRust_DiagnosticKind DK_FirstRemark DK_LastRemark DK_OptimizationRemarkAnalysis =
     LLVMRustDiagnosticKind_OptimizationRemarkAnalysis"
| "toRust_DiagnosticKind DK_FirstRemark DK_LastRemark DK_OptimizationRemarkAnalysisFPCommute =
     LLVMRustDiagnosticKind_OptimizationRemarkAnalysisFPCommute"
| "toRust_DiagnosticKind DK_FirstRemark DK_LastRemark DK_OptimizationRemarkAnalysisAliasing =
     LLVMRustDiagnosticKind_OptimizationRemarkAnalysisAliasing"
| "toRust_DiagnosticKind DK_FirstRemark DK_LastRemark DK_PGOProfile =
     LLVMRustDiagnosticKind_PGOProfile"
| "toRust_DiagnosticKind DK_FirstRemark DK_LastRemark DK_Linker =
     LLVMRustDiagnosticKind_Linker"
| "toRust_DiagnosticKind DK_FirstRemark DK_LastRemark DK_Unsupported =
     LLVMRustDiagnosticKind_Unsupported"
| "toRust_DiagnosticKind DK_FirstRemark DK_LastRemark (DK_other Kind) =
     (if Kind \<ge> DK_FirstRemark \<and> Kind \<le> DK_LastRemark
      then LLVMRustDiagnosticKind_OptimizationRemarkOther
      else LLVMRustDiagnosticKind_Other)"

record DiagnosticInfo =
  DiagnosticInfo_getKind :: DiagnosticKind

definition LLVMRustGetDiagInfoKind ::
  "int \<Rightarrow> int \<Rightarrow> DiagnosticInfo \<Rightarrow> LLVMRustDiagnosticKind" where
  "LLVMRustGetDiagInfoKind DK_FirstRemark DK_LastRemark DI =
     toRust_DiagnosticKind DK_FirstRemark DK_LastRemark (DiagnosticInfo_getKind DI)"

section \<open>The last-error slot\<close>

text \<open>
  \<^verbatim>\<open>static LLVM_THREAD_LOCAL char *LastError\<close>: a pointer to a C string, or null (\<open>None\<close>).
  Both functions take the slot and return it updated; the getter also returns the pointer
  it read.
\<close>

type_synonym LastError = "string option"

definition LLVMRustGetLastError :: "LastError \<Rightarrow> string option \<times> LastError" where
  "LLVMRustGetLastError LastError = (let Ret = LastError in (Ret, None))"

definition LLVMRustSetLastError :: "string \<Rightarrow> LastError \<Rightarrow> LastError" where
  "LLVMRustSetLastError Err LastError = Some Err"

text \<open>The slot is \<^verbatim>\<open>static\<close>: these two calls are all that can touch it.\<close>

datatype LastError_call = GetLastError | SetLastError string

fun LastError_after :: "LastError_call \<Rightarrow> LastError \<Rightarrow> LastError" where
  "LastError_after GetLastError s = snd (LLVMRustGetLastError s)"
| "LastError_after (SetLastError Err) s = LLVMRustSetLastError Err s"

fun LastError_run :: "LastError_call list \<Rightarrow> LastError \<Rightarrow> LastError" where
  "LastError_run [] s = s"
| "LastError_run (c # cs) s = LastError_run cs (LastError_after c s)"

section \<open>Opening an archive\<close>

text \<open>
  \<^verbatim>\<open>MemoryBuffer::getFile\<close> and \<^verbatim>\<open>Archive::create\<close> belong to the backend: they are the
  parameters \<open>getFile\<close> and \<open>Archive_create\<close>, each returning an \<^verbatim>\<open>ErrorOr\<close> (\<open>Inl\<close> the
  error code). The handle returned is the pointer to the new \<^verbatim>\<open>OwningBinary<Archive>\<close>,
  or null (\<open>None\<close>).
\<close>

datatype error_code = error_code (message: string)

definition LLVMRustOpenArchive ::
  "(string \<Rightarrow> error_code + 'buf) \<Rightarrow> ('buf \<Rightarrow> error_code + 'ar) \<Rightarrow>
   string \<Rightarrow> LastError \<Rightarrow> ('ar \<times> 'buf) option \<times> LastError" where
  "LLVMRustOpenArchive getFile Archive_create path LastError =
     (case getFile path of
        Inl err \<Rightarrow> (None, LLVMRustSetLastError (message err) LastError)
      | Inr buf \<Rightarrow>
          (case Archive_create buf of
             Inl err \<Rightarrow> (None, LLVMRustSetLastError (message err) LastError)
           | Inr archive \<Rightarrow> (Some (archive, buf), LastError)))"

text \<open>A file system with one readable archive, one readable file that is no archive, and
  nothing else.\<close>

definition example_getFile :: "string \<Rightarrow> error_code + string" where
  "example_getFile path =
     (if path = ''liba.rlib'' then Inr ''!<arch>''
      else if path = ''notes.txt'' then Inr ''hello''
      else Inl (error_code ''No such file or directory''))"

definition example_Archive_create :: "string \<Rightarrow> error_code + nat" where
  "example_Archive_create buf =
     (if take 7 buf = ''!<arch>'' then Inr 0
      else Inl (error_code ''File too small to be an archive''))"

section \<open>Values of the backend\<close>

text \<open>
  \<^verbatim>\<open>APInt\<close> is the backend's integer of arbitrary width: the width and the bits, read as
  an unsigned number below \<open>2 ^ BitWidth\<close>. The operations below are the backend's, as
  its documentation describes them; \<^verbatim>\<open>getZExtValue\<close> and \<^verbatim>\<open>getSExtValue\<close> assert that
  the value fits 64 bits (\<open>None\<close> when the assertion fails).
\<close>

record APInt =
  BitWidth :: nat
  APInt_bits :: nat

definition APInt_wf :: "APInt \<Rightarrow> bool" where
  "APInt_wf A = (0 < BitWidth A \<and> APInt_bits A < 2 ^ BitWidth A)"

definition zextOrSelf :: "nat \<Rightarrow> APInt \<Rightarrow> APInt" where
  "zextOrSelf width A =
     (if BitWidth A < width then \<lparr>BitWidth = width, APInt_bits = APInt_bits A\<rparr> else A)"

definition sextOrSelf :: "nat \<Rightarrow> APInt \<Rightarrow> APInt" where
  "sextOrSelf width A =
     (if BitWidth A < width
      then \<lparr>BitWidth = width,
            APInt_bits =
              (if bit (APInt_bits A) (BitWidth A - 1)
               then APInt_bits A + (2 ^ width - 2 ^ BitWidth A)
               else APInt_bits A)\<rparr>
      else A)"

definition getLoBits :: "nat \<Rightarrow> APInt \<Rightarrow> APInt" where
  "getLoBits numBits A = \<lparr>BitWidth = BitWidth A, APInt_bits = APInt_bits A mod 2 ^ numBits\<rparr>"

definition getHiBits :: "nat \<Rightarrow> APInt \<Rightarrow> APInt" where
  "getHiBits numBits A =
     \<lparr>BitWidth = BitWidth A, APInt_bits = APInt_bits A div 2 ^ (BitWidth A - numBits)\<rparr>"

definition getZExtValue :: "APInt \<Rightarrow> 64 word option" where
  "getZExtValue A = (if APInt_bits A < 2 ^ 64 then Some (word_of_nat (APInt_bits A)) else None)"

text \<open>The number an \<^verbatim>\<open>APInt\<close> stands for, read as two's complement and read as unsigned.\<close>

definition APInt_signed :: "APInt \<Rightarrow> int" where
  "APInt_signed A =
     (if bit (APInt_bits A) (BitWidth A - 1)
      then int (APInt_bits A) - 2 ^ BitWidth A
      else int (APInt_bits A))"

definition APInt_unsigned :: "APInt \<Rightarrow> int" where
  "APInt_unsigned A = int (APInt_bits A)"

definition getSExtValue :: "APInt \<Rightarrow> 64 word option" where
  "getSExtValue A =
     (if - (2 ^ 63) \<le> APInt_signed A \<and> APInt_signed A < 2 ^ 63
      then Some (word_of_int (APInt_signed A)) else None)"

text \<open>
  Debug-info metadata. The builder's \<^verbatim>\<open>createConstantValueExpression\<close> and
  \<^verbatim>\<open>createGlobalVariableExpression\<close> are the constructors of the two types, which keep the
  arguments they were given; other metadata nodes are handles (\<open>None\<close> is null).
\<close>

datatype DIExpression = createConstantValueExpression "64 word"

record DIGlobalVariableExpression =
  GVE_Context :: "nat option"
  GVE_Name :: string
  GVE_LinkageName :: string
  GVE_File :: "nat option"
  GVE_LineNo :: nat
  GVE_Ty :: "nat option"
  GVE_IsLocalToUnit :: bool
  GVE_Expr :: "DIExpression option"
  GVE_Decl :: "nat option"
  GVE_AlignInBits :: nat

text \<open>
  A value is one of the backend's classes of values: the null constant of a type, an
  integer constant, a floating-point constant (with the bits of its value), a global
  variable (its name, its initializer if it has one, and its metadata attachments by
  kind), or some other value. A handle (\<^verbatim>\<open>LLVMValueRef\<close>) is a pointer to a value, or null
  (\<open>None\<close>). The token type belongs to a context.
\<close>

datatype Type = TokenTy nat

datatype Value =
    ConstantNull Type
  | ConstantInt APInt
  | ConstantFP APInt
  | GlobalVariable string "Value option" "(string \<times> DIGlobalVariableExpression) list"
  | Value_at nat

text \<open>\<^verbatim>\<open>cast<T>\<close> asserts the class of its argument (\<open>None\<close> when the assertion fails);
  \<^verbatim>\<open>dyn_cast<T>\<close> returns null (\<open>None\<close>) for a value of another class.\<close>

fun cast_GlobalVariable :: "Value \<Rightarrow> Value option" where
  "cast_GlobalVariable (GlobalVariable n i m) = Some (GlobalVariable n i m)"
| "cast_GlobalVariable _ = None"

fun cast_ConstantInt :: "Value \<Rightarrow> APInt option" where
  "cast_ConstantInt (ConstantInt A) = Some A"
| "cast_ConstantInt _ = None"

fun dyn_cast_ConstantInt :: "Value \<Rightarrow> APInt option" where
  "dyn_cast_ConstantInt (ConstantInt A) = Some A"
| "dyn_cast_ConstantInt _ = None"

fun dyn_cast_ConstantFP :: "Value \<Rightarrow> APInt option" where
  "dyn_cast_ConstantFP (ConstantFP A) = Some A"
| "dyn_cast_ConstantFP _ = None"

fun setMetadata :: "Value \<Rightarrow> string \<Rightarrow> DIGlobalVariableExpression \<Rightarrow> Value" where
  "setMetadata (GlobalVariable n i m) kind node =
     GlobalVariable n i ((kind, node) # filter (\<lambda>(k, _). k \<noteq> kind) m)"
| "setMetadata v kind node = v"

section \<open>Exception-handling pads\<close>

text \<open>
  An instruction keeps the arguments the builder was given; its parent pad is a value.
  The builder's \<^verbatim>\<open>CreateCleanupPad\<close>, \<^verbatim>\<open>CreateCatchPad\<close> and \<^verbatim>\<open>CreateCatchSwitch\<close> read the
  type of the parent pad they are handed: handed a null pointer they dereference it, and
  the call never returns an instruction (\<open>None\<close>).
\<close>

record IRBuilder =
  getContext :: nat

datatype Instruction =
    CleanupPadInst Value "Value list" string
  | CatchPadInst Value "Value list" string
  | CatchSwitchInst Value nat nat string

fun getParentPad :: "Instruction \<Rightarrow> Value" where
  "getParentPad (CleanupPadInst ParentPad Args Name) = ParentPad"
| "getParentPad (CatchPadInst ParentPad Args Name) = ParentPad"
| "getParentPad (CatchSwitchInst ParentPad BB NumHandlers Name) = ParentPad"

definition CreateCleanupPad :: "Value option \<Rightarrow> Value list \<Rightarrow> string \<Rightarrow> Instruction option" where
  "CreateCleanupPad ParentPad Args Name =
     (case ParentPad of None \<Rightarrow> None | Some P \<Rightarrow> Some (CleanupPadInst P Args Name))"

definition CreateCatchPad :: "Value option \<Rightarrow> Value list \<Rightarrow> string \<Rightarrow> Instruction option" where
  "CreateCatchPad ParentPad Args Name =
     (case ParentPad of None \<Rightarrow> None | Some P \<Rightarrow> Some (CatchPadInst P Args Name))"

definition CreateCatchSwitch :: "Value option \<Rightarrow> nat \<Rightarrow> nat \<Rightarrow> string \<Rightarrow> Instruction option" where
  "CreateCatchSwitch ParentPad BB NumHandlers Name =
     (case ParentPad of
        None \<Rightarrow> None
      | Some P \<Rightarrow> Some (CatchSwitchInst P BB NumHandlers Name))"

text \<open>The three entry points. A handle is a pointer to a value, or null (\<open>None\<close>); the
  result is the instruction built, or \<open>None\<close> when the call never returns.\<close>

definition LLVMRustBuildCleanupPad ::
  "IRBuilder \<Rightarrow> Value option \<Rightarrow> nat \<Rightarrow> Value list \<Rightarrow> string \<Rightarrow> Instruction option" where
  "LLVMRustBuildCleanupPad B ParentPad ArgCount LLArgs Name =
     (let ParentPad' =
        (if ParentPad = None then Some (ConstantNull (TokenTy (getContext B)))
         else ParentPad)
      in CreateCleanupPad ParentPad' (take ArgCount LLArgs) Name)"

definition LLVMRustBuildCatchPad ::
  "IRBuilder \<Rightarrow> Value option \<Rightarrow> nat \<Rightarrow> Value list \<Rightarrow> string \<Rightarrow> Instruction option" where
  "LLVMRustBuildCatchPad B ParentPad ArgCount LLArgs Name =
     CreateCatchPad ParentPad (take ArgCount LLArgs) Name"

definition LLVMRustBuildCatchSwitch ::
  "IRBuilder \<Rightarrow> Value option \<Rightarrow> nat \<Rightarrow> nat \<Rightarrow> string \<Rightarrow> Instruction option" where
  "LLVMRustBuildCatchSwitch B ParentPad BB NumHandlers Name =
     (let ParentPad' =
        (if ParentPad = None then Some (ConstantNull (TokenTy (getContext B)))
         else ParentPad)
      in CreateCatchSwitch ParentPad' BB NumHandlers Name)"

section \<open>Debug info of a static variable\<close>

text \<open>
  The strings are the \<^verbatim>\<open>StringRef\<close>s built from pointer and length. The result is the new
  node together with the global variable after \<^verbatim>\<open>setMetadata\<close>, or \<open>None\<close> when an
  assertion of the backend fails on the way.
\<close>

definition LLVMRustDIBuilderCreateStaticVariable ::
  "nat option \<Rightarrow> string \<Rightarrow> string \<Rightarrow> nat option \<Rightarrow> nat \<Rightarrow> nat option \<Rightarrow> bool \<Rightarrow> Value \<Rightarrow>
   nat option \<Rightarrow> nat \<Rightarrow> (DIGlobalVariableExpression \<times> Value) option" where
  "LLVMRustDIBuilderCreateStaticVariable Context Name LinkageName File LineNo Ty
       IsLocalToUnit V Decl AlignInBits =
     (case cast_GlobalVariable V of
        None \<Rightarrow> None
      | Some InitVal \<Rightarrow>
          (case (case dyn_cast_ConstantInt InitVal of
                   Some IntVal \<Rightarrow>
                     map_option (\<lambda>v. Some (createConstantValueExpression v))
                       (getSExtValue IntVal)
                 | None \<Rightarrow>
                     (case dyn_cast_ConstantFP InitVal of
                        Some FPVal \<Rightarrow>
                          map_option (\<lambda>v. Some (createConstantValueExpression v))
                            (getZExtValue FPVal)
                      | None \<Rightarrow> Some None)) of
             None \<Rightarrow> None
           | Some InitExpr \<Rightarrow>
               (let VarExpr =
                  \<lparr>GVE_Context = Context, GVE_Name = Name, GVE_LinkageName = LinkageName,
                   GVE_File = File, GVE_LineNo = LineNo, GVE_Ty = Ty,
                   GVE_IsLocalToUnit = IsLocalToUnit, GVE_Expr = InitExpr,
                   GVE_Decl = Decl, GVE_AlignInBits = AlignInBits\<rparr>
                in Some (VarExpr, setMetadata InitVal ''dbg'' VarExpr))))"

section \<open>128-bit constants\<close>

text \<open>\<open>hl\<close> is what \<^verbatim>\<open>*high\<close> and \<^verbatim>\<open>*low\<close> hold before the call; the result is the returned
  flag with what they hold after it, or \<open>None\<close> when an assertion of the backend fails.\<close>

definition LLVMRustConstInt128Get ::
  "Value \<Rightarrow> bool \<Rightarrow> 64 word \<times> 64 word \<Rightarrow> (bool \<times> 64 word \<times> 64 word) option" where
  "LLVMRustConstInt128Get CV sext hl =
     (case cast_ConstantInt CV of
        None \<Rightarrow> None
      | Some C \<Rightarrow>
          if BitWidth C > 128 then Some (False, fst hl, snd hl)
          else
            (let AP = (if sext then sextOrSelf 128 C else zextOrSelf 128 C) in
             case getZExtValue (getLoBits 64 AP) of
               None \<Rightarrow> None
             | Some low \<Rightarrow>
                 (case getZExtValue (getHiBits 64 AP) of
                    None \<Rightarrow> None
                  | Some high \<Rightarrow> Some (True, high, low))))"

text \<open>The value of the constant extended to 128 bits, as the number its 128 bits stand for
  when read as unsigned.\<close>

definition extended_128 :: "APInt \<Rightarrow> bool \<Rightarrow> int" where
  "extended_128 C sext = (if sext then APInt_signed C else APInt_unsigned C) mod 2 ^ 128"

section \<open>The fatal error handler\<close>

text \<open>
  What a process does that can be seen from outside, in order: writes to the standard
  error stream, the run of the backend's interrupt handlers, and its exit. After its exit
  a process does nothing more.
\<close>

datatype event = Cerr string | RunInterruptHandlers | Exit int

fun exited :: "event list \<Rightarrow> bool" where
  "exited [] = False"
| "exited (Exit c # es) = True"
| "exited (e # es) = exited es"

definition do_event :: "event \<Rightarrow> event list \<Rightarrow> event list" where
  "do_event e tr = (if exited tr then tr else tr @ [e])"

definition endl :: string where
  "endl = [CHR 0x0A]"

definition FatalErrorHandler :: "'u \<Rightarrow> string \<Rightarrow> bool \<Rightarrow> event list \<Rightarrow> event list" where
  "FatalErrorHandler UserData Reason GenCrashDiag tr =
     do_event (Exit 101)
       (do_event RunInterruptHandlers
          (do_event (Cerr endl)
             (do_event (Cerr Reason)
                (do_event (Cerr ''LLVM ERROR: '') tr))))"

text \<open>The source's comment: the handler exits with 101, "unlike LLVM's default of 1".\<close>

definition LLVM_default_exit_code :: int where
  "LLVM_default_exit_code = 1"

fun stderr_of :: "event list \<Rightarrow> string" where
  "stderr_of [] = []"
| "stderr_of (Cerr s # es) = s @ stderr_of es"
| "stderr_of (e # es) = stderr_of es"

fun exit_code_of :: "event list \<Rightarrow> int option" where
  "exit_code_of [] = None"
| "exit_code_of (Exit c # es) = Some c"
| "exit_code_of (e # es) = exit_code_of es"

section \<open>Unpacking a source-manager diagnostic\<close>

datatype SourceMgr_DiagKind =
    SourceMgr_DK_Error
  | SourceMgr_DK_Warning
  | SourceMgr_DK_Note
  | SourceMgr_DK_Remark
  | SourceMgr_DK_other int

datatype LLVMRustDiagnosticLevel =
    LLVMRustDiagnosticLevel_Error
  | LLVMRustDiagnosticLevel_Warning
  | LLVMRustDiagnosticLevel_Note
  | LLVMRustDiagnosticLevel_Remark

text \<open>
  Pointers are 64-bit addresses, \<^verbatim>\<open>size_t\<close> is 64 bits wide, \<^verbatim>\<open>unsigned\<close> and \<^verbatim>\<open>int\<close> 32.
  The location of a diagnostic is a pointer into the buffer being parsed; the null
  pointer is \<^verbatim>\<open>SMLoc()\<close>. \<open>SMDiagnostic_LBuf\<close> is the buffer of the diagnostic's source
  manager that contains the location
  (\<^verbatim>\<open>LSM.getMemoryBuffer(LSM.FindBufferContainingLoc(D.getLoc()))\<close>).
\<close>

record MemoryBuffer =
  getBufferStart :: "64 word"
  getBuffer :: string

record SMDiagnostic =
  SMDiagnostic_getMessage :: string
  SMDiagnostic_getKind :: SourceMgr_DiagKind
  SMDiagnostic_getLoc :: "64 word"
  SMDiagnostic_getColumnNo :: "32 word"
  SMDiagnostic_getRanges :: "(32 word \<times> 32 word) list"
  SMDiagnostic_LBuf :: MemoryBuffer

text \<open>What the out-parameters point to. The two Rust strings are appended to;
  \<open>RangesOut\<close> is the caller's array and \<open>NumRanges\<close> the number of ranges it has room for.\<close>

record SMDiagnostic_out =
  MessageOut :: string
  BufferOut :: string
  LevelOut :: LLVMRustDiagnosticLevel
  LocOut :: "32 word"
  RangesOut :: "32 word list"
  NumRanges :: nat

fun SMDiagnostic_level :: "SourceMgr_DiagKind \<Rightarrow> fatal + LLVMRustDiagnosticLevel" where
  "SMDiagnostic_level SourceMgr_DK_Error = Inr LLVMRustDiagnosticLevel_Error"
| "SMDiagnostic_level SourceMgr_DK_Warning = Inr LLVMRustDiagnosticLevel_Warning"
| "SMDiagnostic_level SourceMgr_DK_Note = Inr LLVMRustDiagnosticLevel_Note"
| "SMDiagnostic_level SourceMgr_DK_Remark = Inr LLVMRustDiagnosticLevel_Remark"
| "SMDiagnostic_level (SourceMgr_DK_other k) =
     Inl (Fatal ''Invalid LLVMRustDiagnosticLevel value!'')"

text \<open>The loop over the ranges, from \<open>i\<close> on. A write past the end of the caller's array
  is undefined in the source; the list update leaves the list as it is.\<close>

function write_ranges ::
  "64 word \<Rightarrow> (32 word \<times> 32 word) list \<Rightarrow> nat \<Rightarrow> nat \<Rightarrow> 32 word list \<Rightarrow> 32 word list" where
  "write_ranges LineStart Ranges i n Out =
     (if i < n
      then write_ranges LineStart Ranges (Suc i) n
             (Out[i * 2 := ucast (LineStart + ucast (fst (Ranges ! i))),
                  i * 2 + 1 := ucast (LineStart + ucast (snd (Ranges ! i)))])
      else Out)"
  by pat_completeness auto
termination
  by (relation "measure (\<lambda>(LineStart, Ranges, i, n, Out). n - i)") auto

declare write_ranges.simps [simp del]

definition LLVMRustUnpackSMDiagnostic ::
  "SMDiagnostic \<Rightarrow> SMDiagnostic_out \<Rightarrow> fatal + bool \<times> SMDiagnostic_out" where
  "LLVMRustUnpackSMDiagnostic D out =
     (let out1 = out\<lparr>MessageOut := MessageOut out @ SMDiagnostic_getMessage D\<rparr> in
      case SMDiagnostic_level (SMDiagnostic_getKind D) of
        Inl e \<Rightarrow> Inl e
      | Inr level \<Rightarrow>
          (let out2 = out1\<lparr>LevelOut := level\<rparr> in
           if SMDiagnostic_getLoc D = 0 then Inr (False, out2)
           else
             (let LBuf = SMDiagnostic_LBuf D;
                  out3 = out2\<lparr>BufferOut := BufferOut out2 @ getBuffer LBuf\<rparr>;
                  out4 = out3\<lparr>LocOut := ucast (SMDiagnostic_getLoc D - getBufferStart LBuf)\<rparr>;
                  out5 = out4\<lparr>NumRanges :=
                                min (NumRanges out4) (length (SMDiagnostic_getRanges D))\<rparr>;
                  LineStart = (ucast (LocOut out5) :: 64 word)
                                - scast (SMDiagnostic_getColumnNo D)
              in Inr (True,
                      out5\<lparr>RangesOut :=
                             write_ranges LineStart (SMDiagnostic_getRanges D) 0
                               (NumRanges out5) (RangesOut out5)\<rparr>))))"

text \<open>A diagnostic to run the unpacking on: an error in the second line of the buffer, at
  column 4, with one range from column 4 to column 10; the caller has room for four
  ranges. \<open>example_unpacked\<close> is what the out-parameters hold afterwards.\<close>

definition example_D :: SMDiagnostic where
  "example_D =
     \<lparr>SMDiagnostic_getMessage = ''invalid register name'',
      SMDiagnostic_getKind = SourceMgr_DK_Error,
      SMDiagnostic_getLoc = 4107,
      SMDiagnostic_getColumnNo = 4,
      SMDiagnostic_getRanges = [(4, 10)],
      SMDiagnostic_LBuf =
        \<lparr>getBufferStart = 4096,
         getBuffer = ''ret;;;'' @ [CHR 0x0A] @ ''mov %bogus, %eax''\<rparr>\<rparr>"

definition example_out :: SMDiagnostic_out where
  "example_out =
     \<lparr>MessageOut = [], BufferOut = [], LevelOut = LLVMRustDiagnosticLevel_Note,
      LocOut = 0, RangesOut = [0, 0, 0, 0, 0, 0, 0, 0], NumRanges = 4\<rparr>"

definition example_unpacked :: SMDiagnostic_out where
  "example_unpacked =
     \<lparr>MessageOut = ''invalid register name'',
      BufferOut = ''ret;;;'' @ [CHR 0x0A] @ ''mov %bogus, %eax'',
      LevelOut = LLVMRustDiagnosticLevel_Error,
      LocOut = 11, RangesOut = [11, 17, 0, 0, 0, 0, 0, 0], NumRanges = 1\<rparr>"

text \<open>
  The words of the specification, for comparison with the code: every emitted range is
  relative to the start of the line of the error. The ranges a diagnostic carries are
  column ranges, counted from the start of that line (the code adds the offset of the
  start of the line to them), so relative to the line the emitted ranges are these.
\<close>

definition spec_ranges_relative_to_line :: "SMDiagnostic \<Rightarrow> SMDiagnostic_out \<Rightarrow> bool" where
  "spec_ranges_relative_to_line D out' =
     list_all (\<lambda>i. (RangesOut out' ! (i * 2), RangesOut out' ! (i * 2 + 1))
                      = SMDiagnostic_getRanges D ! i)
       [0..<NumRanges out']"

section \<open>Enum translation: the round trip and the fatal default\<close>

lemma fromRust_LLVMAtomicOrdering_fatal_iff:
  "(fromRust_LLVMAtomicOrdering enc v = Inl (Fatal ''Invalid LLVMAtomicOrdering value!''))
     = (v \<notin> enc ` set LLVMAtomicOrdering_names)"
  by (simp add: fromRust_LLVMAtomicOrdering_def LLVMAtomicOrdering_names_def)

lemma fromRust_LLVMAtomicOrdering_value_iff:
  "(\<exists>b. fromRust_LLVMAtomicOrdering enc v = Inr b) = (v \<in> enc ` set LLVMAtomicOrdering_names)"
  by (simp add: fromRust_LLVMAtomicOrdering_def LLVMAtomicOrdering_names_def)

lemma fromRust_LLVMRustAttribute_fatal_iff:
  "(fromRust_LLVMRustAttribute enc v = Inl (Fatal ''bad AttributeKind''))
     = (v \<notin> enc ` set LLVMRustAttribute_names)"
  by (simp add: fromRust_LLVMRustAttribute_def LLVMRustAttribute_names_def)

lemma fromRust_LLVMRustAttribute_value_iff:
  "(\<exists>b. fromRust_LLVMRustAttribute enc v = Inr b) = (v \<in> enc ` set LLVMRustAttribute_names)"
  by (simp add: fromRust_LLVMRustAttribute_def LLVMRustAttribute_names_def)

lemma fromRust_LLVMRustSynchronizationScope_iff:
  "(fromRust_LLVMRustSynchronizationScope v = Inl (Fatal ''bad SynchronizationScope.''))
     = (v \<notin> set LLVMRustSynchronizationScope_enumerators)"
  "(\<exists>b. fromRust_LLVMRustSynchronizationScope v = Inr b)
     = (v \<in> set LLVMRustSynchronizationScope_enumerators)"
  by (simp_all add: fromRust_LLVMRustSynchronizationScope_def
      LLVMRustSynchronizationScope_enumerators_def)

lemma fromRust_LLVMRustAsmDialect_iff:
  "(fromRust_LLVMRustAsmDialect v = Inl (Fatal ''bad AsmDialect.''))
     = (v \<notin> set LLVMRustAsmDialect_enumerators)"
  "(\<exists>b. fromRust_LLVMRustAsmDialect v = Inr b) = (v \<in> set LLVMRustAsmDialect_enumerators)"
  by (simp_all add: fromRust_LLVMRustAsmDialect_def LLVMRustAsmDialect_enumerators_def)

lemma fromRust_LLVMRustDebugEmissionKind_iff:
  "(fromRust_LLVMRustDebugEmissionKind v = Inl (Fatal ''bad DebugEmissionKind.''))
     = (v \<notin> set LLVMRustDebugEmissionKind_enumerators)"
  "(\<exists>b. fromRust_LLVMRustDebugEmissionKind v = Inr b)
     = (v \<in> set LLVMRustDebugEmissionKind_enumerators)"
  by (simp_all add: fromRust_LLVMRustDebugEmissionKind_def
      LLVMRustDebugEmissionKind_enumerators_def)

lemma fromRust_LLVMRustChecksumKind_iff:
  "(fromRust_LLVMRustChecksumKind v = Inl (Fatal ''bad ChecksumKind.''))
     = (v \<notin> set LLVMRustChecksumKind_enumerators)"
  "(\<exists>b. fromRust_LLVMRustChecksumKind v = Inr b) = (v \<in> set LLVMRustChecksumKind_enumerators)"
  by (simp_all add: fromRust_LLVMRustChecksumKind_def LLVMRustChecksumKind_enumerators_def)

lemma fromRust_LLVMRustLinkage_iff:
  "(fromRust_LLVMRustLinkage v = Inl (Fatal ''Invalid LLVMRustLinkage value!''))
     = (v \<notin> set LLVMRustLinkage_enumerators)"
  "(\<exists>b. fromRust_LLVMRustLinkage v = Inr b) = (v \<in> set LLVMRustLinkage_enumerators)"
  by (simp_all add: fromRust_LLVMRustLinkage_def LLVMRustLinkage_enumerators_def)

lemma fromRust_LLVMRustVisibility_iff:
  "(fromRust_LLVMRustVisibility v = Inl (Fatal ''Invalid LLVMRustVisibility value!''))
     = (v \<notin> set LLVMRustVisibility_enumerators)"
  "(\<exists>b. fromRust_LLVMRustVisibility v = Inr b) = (v \<in> set LLVMRustVisibility_enumerators)"
  by (simp_all add: fromRust_LLVMRustVisibility_def LLVMRustVisibility_enumerators_def)

text \<open>
  C1. For every enumerator of \<^verbatim>\<open>LLVMRustLinkage\<close> and every enumerator of
  \<^verbatim>\<open>LLVMRustVisibility\<close>, translating it to the backend's enum with \<^verbatim>\<open>fromRust\<close> and
  translating the result back with \<^verbatim>\<open>toRust\<close> returns the enumerator itself, and neither
  call reaches its fatal error.
\<close>

theorem linkage_visibility_roundtrip:
  "(l \<in> set LLVMRustLinkage_enumerators \<longrightarrow> roundtrip_Linkage l = Inr l) \<and>
   (v \<in> set LLVMRustVisibility_enumerators \<longrightarrow> roundtrip_Visibility v = Inr v)"
proof
  show "l \<in> set LLVMRustLinkage_enumerators \<longrightarrow> roundtrip_Linkage l = Inr l"
    by (auto simp: LLVMRustLinkage_enumerators_def roundtrip_Linkage_def
        fromRust_LLVMRustLinkage_def)
  show "v \<in> set LLVMRustVisibility_enumerators \<longrightarrow> roundtrip_Visibility v = Inr v"
    by (auto simp: LLVMRustVisibility_enumerators_def roundtrip_Visibility_def
        fromRust_LLVMRustVisibility_def)
qed

theorem linkage_visibility_roundtrip_witness:
  "8 \<in> set LLVMRustLinkage_enumerators \<and> roundtrip_Linkage 8 = Inr 8 \<and>
   2 \<in> set LLVMRustVisibility_enumerators \<and> roundtrip_Visibility 2 = Inr 2"
  using linkage_visibility_roundtrip [of 8 2]
  by (simp add: LLVMRustLinkage_enumerators_def LLVMRustVisibility_enumerators_def)

text \<open>
  C2. Each of the eight translations from a caller's enum to the backend's (atomic
  ordering, synchronization scope, asm dialect, attribute kind, linkage, visibility,
  debug emission kind, checksum kind) returns a backend value for every input that is one
  of its enumerators, and calls \<^verbatim>\<open>report_fatal_error\<close> for every other input: on an
  enumerator the fatal branch is not reached, and no other value gets through.
\<close>

theorem fromRust_enumerator_or_fatal:
  "(v \<in> ord_enc ` set LLVMAtomicOrdering_names \<longrightarrow>
      (\<exists>b. fromRust_LLVMAtomicOrdering ord_enc v = Inr b)) \<and>
   (v \<notin> ord_enc ` set LLVMAtomicOrdering_names \<longrightarrow>
      fromRust_LLVMAtomicOrdering ord_enc v = Inl (Fatal ''Invalid LLVMAtomicOrdering value!'')) \<and>
   (v \<in> set LLVMRustSynchronizationScope_enumerators \<longrightarrow>
      (\<exists>b. fromRust_LLVMRustSynchronizationScope v = Inr b)) \<and>
   (v \<notin> set LLVMRustSynchronizationScope_enumerators \<longrightarrow>
      fromRust_LLVMRustSynchronizationScope v = Inl (Fatal ''bad SynchronizationScope.'')) \<and>
   (v \<in> set LLVMRustAsmDialect_enumerators \<longrightarrow>
      (\<exists>b. fromRust_LLVMRustAsmDialect v = Inr b)) \<and>
   (v \<notin> set LLVMRustAsmDialect_enumerators \<longrightarrow>
      fromRust_LLVMRustAsmDialect v = Inl (Fatal ''bad AsmDialect.'')) \<and>
   (v \<in> attr_enc ` set LLVMRustAttribute_names \<longrightarrow>
      (\<exists>b. fromRust_LLVMRustAttribute attr_enc v = Inr b)) \<and>
   (v \<notin> attr_enc ` set LLVMRustAttribute_names \<longrightarrow>
      fromRust_LLVMRustAttribute attr_enc v = Inl (Fatal ''bad AttributeKind'')) \<and>
   (v \<in> set LLVMRustLinkage_enumerators \<longrightarrow>
      (\<exists>b. fromRust_LLVMRustLinkage v = Inr b)) \<and>
   (v \<notin> set LLVMRustLinkage_enumerators \<longrightarrow>
      fromRust_LLVMRustLinkage v = Inl (Fatal ''Invalid LLVMRustLinkage value!'')) \<and>
   (v \<in> set LLVMRustVisibility_enumerators \<longrightarrow>
      (\<exists>b. fromRust_LLVMRustVisibility v = Inr b)) \<and>
   (v \<notin> set LLVMRustVisibility_enumerators \<longrightarrow>
      fromRust_LLVMRustVisibility v = Inl (Fatal ''Invalid LLVMRustVisibility value!'')) \<and>
   (v \<in> set LLVMRustDebugEmissionKind_enumerators \<longrightarrow>
      (\<exists>b. fromRust_LLVMRustDebugEmissionKind v = Inr b)) \<and>
   (v \<notin> set LLVMRustDebugEmissionKind_enumerators \<longrightarrow>
      fromRust_LLVMRustDebugEmissionKind v = Inl (Fatal ''bad DebugEmissionKind.'')) \<and>
   (v \<in> set LLVMRustChecksumKind_enumerators \<longrightarrow>
      (\<exists>b. fromRust_LLVMRustChecksumKind v = Inr b)) \<and>
   (v \<notin> set LLVMRustChecksumKind_enumerators \<longrightarrow>
      fromRust_LLVMRustChecksumKind v = Inl (Fatal ''bad ChecksumKind.''))"
  unfolding fromRust_LLVMAtomicOrdering_fatal_iff fromRust_LLVMAtomicOrdering_value_iff
    fromRust_LLVMRustAttribute_fatal_iff fromRust_LLVMRustAttribute_value_iff
    fromRust_LLVMRustSynchronizationScope_iff fromRust_LLVMRustAsmDialect_iff
    fromRust_LLVMRustDebugEmissionKind_iff fromRust_LLVMRustChecksumKind_iff
    fromRust_LLVMRustLinkage_iff fromRust_LLVMRustVisibility_iff
  by simp

lemma in_llvm_c_AtomicOrdering:
  "1 \<in> llvm_c_AtomicOrdering ` set LLVMAtomicOrdering_names"
  "3 \<notin> llvm_c_AtomicOrdering ` set LLVMAtomicOrdering_names"
  by (simp_all add: LLVMAtomicOrdering_names_def)

lemma in_LLVMRustAttribute_position:
  "1 \<in> LLVMRustAttribute_position ` set LLVMRustAttribute_names"
  "3 \<in> LLVMRustAttribute_position ` set LLVMRustAttribute_names"
  "99 \<notin> LLVMRustAttribute_position ` set LLVMRustAttribute_names"
  by (simp_all add: LLVMRustAttribute_names_def LLVMRustAttribute_position_def)

theorem fromRust_enumerator_or_fatal_witness:
  "(\<exists>b. fromRust_LLVMAtomicOrdering llvm_c_AtomicOrdering 1 = Inr b) \<and>
   fromRust_LLVMAtomicOrdering llvm_c_AtomicOrdering 3
     = Inl (Fatal ''Invalid LLVMAtomicOrdering value!'') \<and>
   (\<exists>b. fromRust_LLVMRustSynchronizationScope 1 = Inr b) \<and>
   fromRust_LLVMRustSynchronizationScope 3 = Inl (Fatal ''bad SynchronizationScope.'') \<and>
   (\<exists>b. fromRust_LLVMRustAsmDialect 1 = Inr b) \<and>
   fromRust_LLVMRustAsmDialect 3 = Inl (Fatal ''bad AsmDialect.'') \<and>
   (\<exists>b. fromRust_LLVMRustAttribute LLVMRustAttribute_position 1 = Inr b) \<and>
   (\<exists>b. fromRust_LLVMRustAttribute LLVMRustAttribute_position 3 = Inr b) \<and>
   fromRust_LLVMRustAttribute LLVMRustAttribute_position 99
     = Inl (Fatal ''bad AttributeKind'') \<and>
   (\<exists>b. fromRust_LLVMRustLinkage 1 = Inr b) \<and>
   (\<exists>b. fromRust_LLVMRustLinkage 3 = Inr b) \<and>
   fromRust_LLVMRustLinkage 99 = Inl (Fatal ''Invalid LLVMRustLinkage value!'') \<and>
   (\<exists>b. fromRust_LLVMRustVisibility 1 = Inr b) \<and>
   fromRust_LLVMRustVisibility 3 = Inl (Fatal ''Invalid LLVMRustVisibility value!'') \<and>
   (\<exists>b. fromRust_LLVMRustDebugEmissionKind 1 = Inr b) \<and>
   fromRust_LLVMRustDebugEmissionKind 3 = Inl (Fatal ''bad DebugEmissionKind.'') \<and>
   (\<exists>b. fromRust_LLVMRustChecksumKind 1 = Inr b) \<and>
   fromRust_LLVMRustChecksumKind 3 = Inl (Fatal ''bad ChecksumKind.'')"
  using fromRust_enumerator_or_fatal [of 1 llvm_c_AtomicOrdering LLVMRustAttribute_position]
    fromRust_enumerator_or_fatal [of 3 llvm_c_AtomicOrdering LLVMRustAttribute_position]
    fromRust_enumerator_or_fatal [of 99 llvm_c_AtomicOrdering LLVMRustAttribute_position]
  by (simp add: in_llvm_c_AtomicOrdering in_LLVMRustAttribute_position
      LLVMRustSynchronizationScope_enumerators_def LLVMRustAsmDialect_enumerators_def
      LLVMRustLinkage_enumerators_def LLVMRustVisibility_enumerators_def
      LLVMRustDebugEmissionKind_enumerators_def LLVMRustChecksumKind_enumerators_def)

section \<open>Diagnostic kinds: the unsupported kind\<close>

text \<open>
  C7 (as the code has it). Classifying a diagnostic of the backend's kind
  \<^verbatim>\<open>DK_Unsupported\<close> yields the taxonomy's own entry \<^verbatim>\<open>Unsupported\<close>, not the catch-all
  \<^verbatim>\<open>Other\<close>; the classification has no fatal path, and it yields \<^verbatim>\<open>Other\<close> exactly for a
  kind that is no case label and lies outside the range of the remark kinds.
\<close>

theorem unsupported_kind_classified_Unsupported:
  "LLVMRustGetDiagInfoKind DK_FirstRemark DK_LastRemark
       (DI\<lparr>DiagnosticInfo_getKind := DK_Unsupported\<rparr>)
     = LLVMRustDiagnosticKind_Unsupported \<and>
   (LLVMRustGetDiagInfoKind DK_FirstRemark DK_LastRemark DI = LLVMRustDiagnosticKind_Other)
     = (\<exists>k. DiagnosticInfo_getKind DI = DK_other k \<and> (k < DK_FirstRemark \<or> DK_LastRemark < k))"
proof
  show "LLVMRustGetDiagInfoKind DK_FirstRemark DK_LastRemark
          (DI\<lparr>DiagnosticInfo_getKind := DK_Unsupported\<rparr>) = LLVMRustDiagnosticKind_Unsupported"
    by (simp add: LLVMRustGetDiagInfoKind_def)
  show "(LLVMRustGetDiagInfoKind DK_FirstRemark DK_LastRemark DI = LLVMRustDiagnosticKind_Other)
     = (\<exists>k. DiagnosticInfo_getKind DI = DK_other k \<and> (k < DK_FirstRemark \<or> DK_LastRemark < k))"
    by (cases "DiagnosticInfo_getKind DI") (auto simp: LLVMRustGetDiagInfoKind_def)
qed

theorem unsupported_kind_not_catch_all:
  "LLVMRustGetDiagInfoKind 8 13 \<lparr>DiagnosticInfo_getKind = DK_Unsupported\<rparr>
     \<noteq> LLVMRustDiagnosticKind_Other"
  by (simp add: LLVMRustGetDiagInfoKind_def)

section \<open>The last-error slot: read, set, clear\<close>

lemma LastError_run_cleared:
  "s \<noteq> None \<Longrightarrow> LastError_run cs s = None \<Longrightarrow> GetLastError \<in> set cs"
proof (induction cs arbitrary: s)
  case Nil
  then show ?case by simp
next
  case (Cons c cs)
  show ?case
  proof (cases c)
    case GetLastError
    then show ?thesis by simp
  next
    case (SetLastError Err)
    with Cons.prems have "LastError_run cs (Some Err) = None"
      by (simp add: LLVMRustSetLastError_def)
    then have "GetLastError \<in> set cs"
      using Cons.IH [of "Some Err"] by simp
    then show ?thesis by simp
  qed
qed

text \<open>
  C3. \<^verbatim>\<open>LLVMRustGetLastError\<close> returns the message the slot holds and leaves the slot
  empty, so a second read right after it returns null; \<^verbatim>\<open>LLVMRustSetLastError\<close> replaces
  whatever the slot held by the new message, which the next read returns; and over any
  sequence of calls a slot that held a message is empty afterwards only if a read was
  among them.
\<close>

theorem last_error_read_clears_set_replaces:
  "LLVMRustGetLastError s = (s, None) \<and>
   fst (LLVMRustGetLastError (snd (LLVMRustGetLastError s))) = None \<and>
   LLVMRustSetLastError e s = Some e \<and>
   LLVMRustGetLastError (LLVMRustSetLastError e s) = (Some e, None) \<and>
   (s \<noteq> None \<and> LastError_run cs s = None \<longrightarrow> GetLastError \<in> set cs)"
  using LastError_run_cleared [of s cs]
  by (simp add: LLVMRustGetLastError_def LLVMRustSetLastError_def)

theorem last_error_read_clears_set_replaces_witness:
  "LLVMRustGetLastError (Some ''No such file'') = (Some ''No such file'', None) \<and>
   LLVMRustSetLastError ''corrupt'' (Some ''No such file'') = Some ''corrupt'' \<and>
   Some ''No such file'' \<noteq> None \<and>
   LastError_run [SetLastError ''corrupt'', GetLastError] (Some ''No such file'') = None \<and>
   GetLastError \<in> set [SetLastError ''corrupt'', GetLastError]"
  using last_error_read_clears_set_replaces
    [of "Some ''No such file''" "''corrupt''" "[SetLastError ''corrupt'', GetLastError]"]
  by (simp add: LLVMRustGetLastError_def)

section \<open>Opening an archive: a handle or the last error\<close>

text \<open>
  C4. For every path, \<^verbatim>\<open>LLVMRustOpenArchive\<close> either returns a non-null handle (the file was
  read and the archive parsed; the last-error slot is left as it was), or the file could
  not be read or the archive could not be parsed, and it returns null with the last-error
  slot set to the message of that failure. It has no fatal path.
\<close>

theorem open_archive_handle_or_last_error:
  "(\<exists>ar buf. LLVMRustOpenArchive getFile Archive_create path s = (Some (ar, buf), s) \<and>
       getFile path = Inr buf \<and> Archive_create buf = Inr ar) \<or>
   (\<exists>err. LLVMRustOpenArchive getFile Archive_create path s = (None, Some (message err)) \<and>
       (getFile path = Inl err \<or>
        (\<exists>buf. getFile path = Inr buf \<and> Archive_create buf = Inl err)))"
proof (cases "getFile path")
  case (Inl err)
  then show ?thesis
    by (auto simp: LLVMRustOpenArchive_def LLVMRustSetLastError_def)
next
  case (Inr buf)
  then show ?thesis
    by (cases "Archive_create buf")
      (auto simp: LLVMRustOpenArchive_def LLVMRustSetLastError_def)
qed

theorem open_archive_handle_or_last_error_witness:
  "LLVMRustOpenArchive example_getFile example_Archive_create ''missing.rlib'' None
     = (None, Some ''No such file or directory'') \<and>
   LLVMRustOpenArchive example_getFile example_Archive_create ''notes.txt'' None
     = (None, Some ''File too small to be an archive'') \<and>
   LLVMRustOpenArchive example_getFile example_Archive_create ''liba.rlib'' None
     = (Some (0, ''!<arch>''), None)"
  using open_archive_handle_or_last_error
      [of example_getFile example_Archive_create "''missing.rlib''" None]
    open_archive_handle_or_last_error
      [of example_getFile example_Archive_create "''notes.txt''" None]
    open_archive_handle_or_last_error
      [of example_getFile example_Archive_create "''liba.rlib''" None]
  by (auto simp: example_getFile_def example_Archive_create_def)

section \<open>Exception-handling pads: the parent pad\<close>

text \<open>
  The cleanup pad and the catch switch: a null parent pad is replaced by the null constant
  of the token type of the builder's context, any other parent is passed on as it is, and
  in both cases the instruction is built.
\<close>

lemma cleanup_pad_catch_switch_parent:
  "LLVMRustBuildCleanupPad B None ArgCount LLArgs Name
     = Some (CleanupPadInst (ConstantNull (TokenTy (getContext B))) (take ArgCount LLArgs) Name)"
  "LLVMRustBuildCatchSwitch B None BB NumHandlers Name
     = Some (CatchSwitchInst (ConstantNull (TokenTy (getContext B))) BB NumHandlers Name)"
  "LLVMRustBuildCleanupPad B (Some P) ArgCount LLArgs Name
     = Some (CleanupPadInst P (take ArgCount LLArgs) Name)"
  "LLVMRustBuildCatchSwitch B (Some P) BB NumHandlers Name
     = Some (CatchSwitchInst P BB NumHandlers Name)"
  by (simp_all add: LLVMRustBuildCleanupPad_def LLVMRustBuildCatchSwitch_def
      CreateCleanupPad_def CreateCatchSwitch_def)

text \<open>The catch pad has no such check: a non-null parent is passed on as it is, and a
  null parent reaches the builder, for whatever arguments and name.\<close>

lemma catch_pad_parent:
  "LLVMRustBuildCatchPad B (Some P) ArgCount LLArgs Name
     = Some (CatchPadInst P (take ArgCount LLArgs) Name)"
  "LLVMRustBuildCatchPad B None ArgCount LLArgs Name = None"
  by (simp_all add: LLVMRustBuildCatchPad_def CreateCatchPad_def)

text \<open>
  C5 (where the code departs from it). Called with a null parent pad,
  \<^verbatim>\<open>LLVMRustBuildCatchPad\<close> substitutes nothing: the null pointer reaches the builder and no
  catch pad is built, while \<^verbatim>\<open>LLVMRustBuildCleanupPad\<close> and \<^verbatim>\<open>LLVMRustBuildCatchSwitch\<close>,
  called with a null parent pad in the same builder, build their instruction with the null
  token constant as the parent.
\<close>

theorem catch_pad_null_parent_not_substituted:
  "LLVMRustBuildCatchPad \<lparr>getContext = 0\<rparr> None 0 [] ''catchpad'' = None \<and>
   map_option getParentPad (LLVMRustBuildCleanupPad \<lparr>getContext = 0\<rparr> None 0 [] ''cleanuppad'')
     = Some (ConstantNull (TokenTy 0)) \<and>
   map_option getParentPad (LLVMRustBuildCatchSwitch \<lparr>getContext = 0\<rparr> None 1 2 ''catchswitch'')
     = Some (ConstantNull (TokenTy 0))"
  by (simp add: LLVMRustBuildCatchPad_def LLVMRustBuildCleanupPad_def
      LLVMRustBuildCatchSwitch_def CreateCatchPad_def CreateCleanupPad_def
      CreateCatchSwitch_def)

section \<open>Debug info of a static variable: the initializer expression\<close>

text \<open>
  The value handed in is cast to a global variable first, and a global variable is
  neither an integer constant nor a floating-point constant: both \<^verbatim>\<open>dyn_cast\<close>s are made
  on the global variable itself, not on its initializer, and return null.
\<close>

lemma dyn_cast_of_GlobalVariable:
  "cast_GlobalVariable V = Some InitVal \<Longrightarrow>
     dyn_cast_ConstantInt InitVal = None \<and> dyn_cast_ConstantFP InitVal = None"
  by (cases V) auto

lemma static_variable_never_has_InitExpr:
  "LLVMRustDIBuilderCreateStaticVariable Context Name LinkageName File LineNo Ty
       IsLocalToUnit V Decl AlignInBits = Some (VarExpr, G) \<Longrightarrow> GVE_Expr VarExpr = None"
  by (auto simp: LLVMRustDIBuilderCreateStaticVariable_def Let_def
      dest!: dyn_cast_of_GlobalVariable split: option.splits)

text \<open>
  C8 (where the code departs from it). For the global variable \<open>ANSWER\<close> whose initializer
  is the 32-bit integer constant 42, \<^verbatim>\<open>LLVMRustDIBuilderCreateStaticVariable\<close> returns a
  global-variable expression with no initializer expression attached.
\<close>

theorem static_variable_constant_initializer_no_InitExpr:
  "map_option (\<lambda>r. GVE_Expr (fst r))
     (LLVMRustDIBuilderCreateStaticVariable (Some 1) ''ANSWER'' ''_ZN6ANSWERE'' (Some 2) 7
        (Some 3) False
        (GlobalVariable ''ANSWER'' (Some (ConstantInt \<lparr>BitWidth = 32, APInt_bits = 42\<rparr>)) [])
        None 32)
     = Some None"
  by (simp add: LLVMRustDIBuilderCreateStaticVariable_def Let_def)

section \<open>The fatal error handler: report, clean up, exit 101\<close>

lemma exited_append: "exited (a @ b) = (exited a \<or> exited b)"
  by (induction a rule: exited.induct) auto

lemma stderr_of_append: "stderr_of (a @ b) = stderr_of a @ stderr_of b"
  by (induction a rule: stderr_of.induct) auto

lemma exit_code_of_append:
  "\<not> exited a \<Longrightarrow> exit_code_of (a @ b) = exit_code_of b"
  by (induction a rule: exited.induct) auto

text \<open>
  C9. Called in a running process with the reason of an unrecoverable condition,
  \<^verbatim>\<open>FatalErrorHandler\<close> writes \<open>LLVM ERROR: \<close>, the reason and a line end to the standard
  error stream, then runs the backend's interrupt handlers, then exits the process with
  code 101, which is not the backend's default exit code 1.
\<close>

theorem fatal_handler_reports_cleans_exits_101:
  "\<not> exited tr \<Longrightarrow>
     FatalErrorHandler UserData Reason GenCrashDiag tr
       = tr @ [Cerr ''LLVM ERROR: '', Cerr Reason, Cerr endl, RunInterruptHandlers, Exit 101] \<and>
     stderr_of (FatalErrorHandler UserData Reason GenCrashDiag tr)
       = stderr_of tr @ ''LLVM ERROR: '' @ Reason @ endl \<and>
     exit_code_of (FatalErrorHandler UserData Reason GenCrashDiag tr) = Some 101 \<and>
     101 \<noteq> LLVM_default_exit_code"
proof -
  assume run: "\<not> exited tr"
  have tr_eq: "FatalErrorHandler UserData Reason GenCrashDiag tr
       = tr @ [Cerr ''LLVM ERROR: '', Cerr Reason, Cerr endl, RunInterruptHandlers, Exit 101]"
    using run by (simp add: FatalErrorHandler_def do_event_def exited_append)
  show ?thesis
    unfolding tr_eq using run
    by (simp add: stderr_of_append exit_code_of_append LLVM_default_exit_code_def)
qed

theorem fatal_handler_reports_cleans_exits_101_witness:
  "\<not> exited [Cerr ''warning: unused''] \<and>
   FatalErrorHandler () ''bad AttributeKind'' True [Cerr ''warning: unused'']
     = [Cerr ''warning: unused'', Cerr ''LLVM ERROR: '', Cerr ''bad AttributeKind'', Cerr endl,
        RunInterruptHandlers, Exit 101] \<and>
   exit_code_of (FatalErrorHandler () ''bad AttributeKind'' True [Cerr ''warning: unused''])
     = Some 101"
  using fatal_handler_reports_cleans_exits_101
    [of "[Cerr ''warning: unused'']" "()" "''bad AttributeKind''" True]
  by simp

section \<open>128-bit constants: the two halves\<close>

lemma signed_mod_power:
  fixes b w N :: nat
  assumes "w \<le> N" "b < 2 ^ w"
  shows "(int b - 2 ^ w) mod 2 ^ N = int b + (2 ^ N - 2 ^ w)"
proof -
  have w: "(2::int) ^ w \<le> 2 ^ N"
    using assms(1) by (intro power_increasing) simp_all
  have b: "int b < 2 ^ w"
    using assms(2) by (metis of_nat_less_iff of_nat_numeral of_nat_power)
  have "(int b - 2 ^ w) mod 2 ^ N = (int b - 2 ^ w + 2 ^ N) mod 2 ^ N"
    by simp
  also have "\<dots> = int b - 2 ^ w + 2 ^ N"
    using w b by (intro mod_pos_pos_trivial) linarith+
  finally show ?thesis by simp
qed

lemma extended_bits:
  fixes C :: APInt and sext :: bool and N :: nat
  assumes wf: "APInt_wf C" and le: "BitWidth C \<le> N"
  defines "AP \<equiv> (if sext then sextOrSelf N C else zextOrSelf N C)"
  shows "BitWidth AP = N \<and>
         int (APInt_bits AP) = (if sext then APInt_signed C else APInt_unsigned C) mod 2 ^ N"
proof -
  let ?w = "BitWidth C" and ?b = "APInt_bits C"
  have b: "?b < 2 ^ ?w" and w0: "0 < ?w"
    using wf by (simp_all add: APInt_wf_def)
  have pw: "(2::nat) ^ ?w \<le> 2 ^ N"
    using le by (intro power_increasing) simp_all
  have b128: "int ?b < 2 ^ N"
    using b pw by (metis less_le_trans of_nat_less_iff of_nat_numeral of_nat_power)
  have width: "BitWidth AP = N"
    using le by (auto simp: AP_def sextOrSelf_def zextOrSelf_def)
  have unsigned_case: "int ?b mod 2 ^ N = int ?b"
    using b128 by (intro mod_pos_pos_trivial) simp_all
  have bits: "int (APInt_bits AP) = (if sext then APInt_signed C else APInt_unsigned C) mod 2 ^ N"
  proof (cases sext)
    case False
    then show ?thesis
      using unsigned_case
      by (simp add: AP_def zextOrSelf_def APInt_unsigned_def)
  next
    case True
    show ?thesis
    proof (cases "bit ?b (?w - 1)")
      case False
      then show ?thesis
        using True unsigned_case
        by (simp add: AP_def sextOrSelf_def APInt_signed_def)
    next
      case neg: True
      have E: "APInt_signed C mod 2 ^ N = int ?b + (2 ^ N - 2 ^ ?w)"
        using neg signed_mod_power [OF le b]
        by (simp add: APInt_signed_def)
      show ?thesis
      proof (cases "?w < N")
        case True
        then have "APInt_bits AP = ?b + (2 ^ N - 2 ^ ?w)"
          using \<open>sext\<close> neg by (simp add: AP_def sextOrSelf_def)
        then have "int (APInt_bits AP) = int (?b + (2 ^ N - 2 ^ ?w))"
          by (rule arg_cong)
        also have "\<dots> = int ?b + (2 ^ N - 2 ^ ?w)"
          using pw by (simp only: of_nat_add of_nat_diff of_nat_power of_nat_numeral)
        also have "\<dots> = APInt_signed C mod 2 ^ N"
          using E by (rule sym)
        finally show ?thesis
          using \<open>sext\<close> by simp
      next
        case False
        then have "?w = N" using le by simp
        then show ?thesis
          using \<open>sext\<close> E by (simp add: AP_def sextOrSelf_def)
      qed
    qed
  qed
  show ?thesis using width bits by simp
qed


lemma getZExtValue_small:
  "n < 2 ^ 64 \<Longrightarrow> getZExtValue \<lparr>BitWidth = w, APInt_bits = n\<rparr> = Some (word_of_nat n)"
  by (simp add: getZExtValue_def)

lemma uint_word_of_nat_small:
  "n < 2 ^ 64 \<Longrightarrow> uint (word_of_nat n :: 64 word) = int n"
proof -
  assume "n < 2 ^ 64"
  then have "take_bit 64 n = n" by (rule take_bit_nat_eq_self)
  then show ?thesis by (simp add: unsigned_of_nat)
qed

lemma div_power_less:
  fixes n a b :: nat
  shows "n < 2 ^ (a + b) \<Longrightarrow> n div 2 ^ a < 2 ^ b"
  by (simp add: less_mult_imp_div_less power_add mult.commute)

lemma halves_of_bits:
  assumes "BitWidth AP = 64 + 64" "APInt_bits AP < 2 ^ (64 + 64)"
  shows "\<exists>high low.
     getZExtValue (getLoBits 64 AP) = Some low \<and> getZExtValue (getHiBits 64 AP) = Some high \<and>
     uint low = int (APInt_bits AP) mod 2 ^ 64 \<and> uint high = int (APInt_bits AP) div 2 ^ 64"
proof -
  let ?n = "APInt_bits AP"
  have lo: "?n mod 2 ^ 64 < 2 ^ 64" by simp
  have hi: "?n div 2 ^ 64 < 2 ^ 64"
    using assms(2) by (rule div_power_less)
  have "getLoBits 64 AP = \<lparr>BitWidth = BitWidth AP, APInt_bits = ?n mod 2 ^ 64\<rparr>"
    by (simp add: getLoBits_def)
  then have 1: "getZExtValue (getLoBits 64 AP) = Some (word_of_nat (?n mod 2 ^ 64))"
    using getZExtValue_small [OF lo] by simp
  have "BitWidth AP - 64 = 64" using assms(1) by simp
  then have "getHiBits 64 AP = \<lparr>BitWidth = BitWidth AP, APInt_bits = ?n div 2 ^ 64\<rparr>"
    by (simp add: getHiBits_def)
  then have 2: "getZExtValue (getHiBits 64 AP) = Some (word_of_nat (?n div 2 ^ 64))"
    using getZExtValue_small [OF hi] by simp
  have 3: "uint (word_of_nat (?n mod 2 ^ 64) :: 64 word) = int ?n mod 2 ^ 64"
    using uint_word_of_nat_small [OF lo] by (simp add: zmod_int)
  have 4: "uint (word_of_nat (?n div 2 ^ 64) :: 64 word) = int ?n div 2 ^ 64"
    using uint_word_of_nat_small [OF hi] by (simp add: zdiv_int)
  show ?thesis using 1 2 3 4 by blast
qed

lemma extended_128_example:
  "extended_128 \<lparr>BitWidth = 8, APInt_bits = 255\<rparr> True = 2 ^ 128 - 1"
  "extended_128 \<lparr>BitWidth = 8, APInt_bits = 255\<rparr> False = 255"
  by (simp_all add: extended_128_def APInt_signed_def APInt_unsigned_def bit_iff_odd)

text \<open>
  C10. When the constant is wider than 128 bits, \<^verbatim>\<open>LLVMRustConstInt128Get\<close> returns false
  and leaves \<^verbatim>\<open>*high\<close> and \<^verbatim>\<open>*low\<close> as they were. Otherwise it returns true, no assertion of
  the backend fails, and \<^verbatim>\<open>*low\<close> and \<^verbatim>\<open>*high\<close> hold the low and the high 64 bits of the
  constant's value extended to 128 bits: sign-extended when \<^verbatim>\<open>sext\<close> is true, zero-extended
  when it is false.
\<close>

theorem const_int128_get_halves:
  "(128 < BitWidth C \<longrightarrow>
      LLVMRustConstInt128Get (ConstantInt C) sext (high, low) = Some (False, high, low)) \<and>
   (APInt_wf C \<and> BitWidth C \<le> 128 \<longrightarrow>
      (\<exists>high' low'.
         LLVMRustConstInt128Get (ConstantInt C) sext (high, low) = Some (True, high', low') \<and>
         uint low' = extended_128 C sext mod 2 ^ 64 \<and>
         uint high' = extended_128 C sext div 2 ^ 64))"
proof (intro conjI impI)
  assume "128 < BitWidth C"
  then show "LLVMRustConstInt128Get (ConstantInt C) sext (high, low) = Some (False, high, low)"
    by (simp add: LLVMRustConstInt128Get_def)
next
  assume a: "APInt_wf C \<and> BitWidth C \<le> 128"
  define AP where "AP = (if sext then sextOrSelf 128 C else zextOrSelf 128 C)"
  have n: "(128::nat) = 64 + 64" by simp
  have ext: "BitWidth AP = 128" "int (APInt_bits AP) = extended_128 C sext"
    using extended_bits [of C 128 sext] a unfolding AP_def extended_128_def by blast+
  have "int (APInt_bits AP) < 2 ^ 128"
    unfolding ext(2) extended_128_def by (rule pos_mod_bound) simp
  then have "APInt_bits AP < 2 ^ 128"
    by (metis of_nat_less_iff of_nat_numeral of_nat_power)
  then have lt: "APInt_bits AP < 2 ^ (64 + 64)"
    by (simp only: n [symmetric])
  have w: "BitWidth AP = 64 + 64"
    using ext(1) by (simp only: n [symmetric])
  from halves_of_bits [OF w lt] obtain high' low' where
    h: "getZExtValue (getLoBits 64 AP) = Some low'" "getZExtValue (getHiBits 64 AP) = Some high'"
       "uint low' = int (APInt_bits AP) mod 2 ^ 64" "uint high' = int (APInt_bits AP) div 2 ^ 64"
    by blast
  have not_wide: "\<not> 128 < BitWidth C" using a by simp
  have "LLVMRustConstInt128Get (ConstantInt C) sext (high, low) = Some (True, high', low')"
    using not_wide h(1,2)
    by (simp add: LLVMRustConstInt128Get_def AP_def [symmetric] Let_def)
  moreover have "uint low' = extended_128 C sext mod 2 ^ 64"
    using h(3) by (simp only: ext(2))
  moreover have "uint high' = extended_128 C sext div 2 ^ 64"
    using h(4) by (simp only: ext(2))
  ultimately show "\<exists>high' low'.
         LLVMRustConstInt128Get (ConstantInt C) sext (high, low) = Some (True, high', low') \<and>
         uint low' = extended_128 C sext mod 2 ^ 64 \<and>
         uint high' = extended_128 C sext div 2 ^ 64"
    by blast
qed

theorem const_int128_get_halves_witness:
  "LLVMRustConstInt128Get (ConstantInt \<lparr>BitWidth = 129, APInt_bits = 5\<rparr>) False (7, 9)
     = Some (False, 7, 9) \<and>
   APInt_wf \<lparr>BitWidth = 8, APInt_bits = 255\<rparr> \<and>
   (\<exists>high' low'.
      LLVMRustConstInt128Get (ConstantInt \<lparr>BitWidth = 8, APInt_bits = 255\<rparr>) True (0, 0)
        = Some (True, high', low') \<and>
      uint low' = 2 ^ 64 - 1 \<and> uint high' = 2 ^ 64 - 1) \<and>
   (\<exists>high' low'.
      LLVMRustConstInt128Get (ConstantInt \<lparr>BitWidth = 8, APInt_bits = 255\<rparr>) False (0, 0)
        = Some (True, high', low') \<and>
      uint low' = 255 \<and> uint high' = 0)"
  using const_int128_get_halves [of "\<lparr>BitWidth = 129, APInt_bits = 5\<rparr>" False 7 9]
    const_int128_get_halves [of "\<lparr>BitWidth = 8, APInt_bits = 255\<rparr>" True 0 0]
    const_int128_get_halves [of "\<lparr>BitWidth = 8, APInt_bits = 255\<rparr>" False 0 0]
  by (simp add: APInt_wf_def extended_128_example)

section \<open>Unpacking a source-manager diagnostic: the ranges\<close>

lemma write_ranges_step:
  "i < n \<Longrightarrow>
     write_ranges LineStart Ranges i n Out
       = write_ranges LineStart Ranges (Suc i) n
           (Out[i * 2 := ucast (LineStart + ucast (fst (Ranges ! i))),
                i * 2 + 1 := ucast (LineStart + ucast (snd (Ranges ! i)))])"
  by (subst write_ranges.simps) (simp only: if_True)

lemma write_ranges_done:
  "\<not> i < n \<Longrightarrow> write_ranges LineStart Ranges i n Out = Out"
  by (subst write_ranges.simps) (simp only: if_False)

lemma length_write_ranges:
  "length (write_ranges LineStart Ranges i n Out) = length Out"
proof (induction LineStart Ranges i n Out rule: write_ranges.induct)
  case (1 LineStart Ranges i n Out)
  show ?case
  proof (cases "i < n")
    case True
    show ?thesis
      unfolding write_ranges_step [OF True] "1.IH" [OF True] by simp
  next
    case False
    then show ?thesis by (simp add: write_ranges_done)
  qed
qed

lemma write_ranges_below:
  "k < i * 2 \<Longrightarrow> write_ranges LineStart Ranges i n Out ! k = Out ! k"
proof (induction LineStart Ranges i n Out rule: write_ranges.induct)
  case (1 LineStart Ranges i n Out)
  show ?case
  proof (cases "i < n")
    case True
    have k: "k < Suc i * 2" using "1.prems" by simp
    show ?thesis
      unfolding write_ranges_step [OF True] "1.IH" [OF True k]
      using "1.prems" by simp
  next
    case False
    then show ?thesis by (simp add: write_ranges_done)
  qed
qed

lemma write_ranges_above:
  "n * 2 \<le> k \<Longrightarrow> write_ranges LineStart Ranges i n Out ! k = Out ! k"
proof (induction LineStart Ranges i n Out rule: write_ranges.induct)
  case (1 LineStart Ranges i n Out)
  show ?case
  proof (cases "i < n")
    case True
    show ?thesis
      unfolding write_ranges_step [OF True] "1.IH" [OF True "1.prems"]
      using "1.prems" True by simp
  next
    case False
    then show ?thesis by (simp add: write_ranges_done)
  qed
qed

lemma write_ranges_written:
  "i \<le> j \<Longrightarrow> j < n \<Longrightarrow> n * 2 \<le> length Out \<Longrightarrow>
     write_ranges LineStart Ranges i n Out ! (j * 2)
       = ucast (LineStart + ucast (fst (Ranges ! j))) \<and>
     write_ranges LineStart Ranges i n Out ! (j * 2 + 1)
       = ucast (LineStart + ucast (snd (Ranges ! j)))"
proof (induction LineStart Ranges i n Out rule: write_ranges.induct)
  case (1 LineStart Ranges i n Out)
  let ?Out' = "Out[i * 2 := ucast (LineStart + ucast (fst (Ranges ! i))),
                   i * 2 + 1 := ucast (LineStart + ucast (snd (Ranges ! i)))]"
  have i: "i < n" using "1.prems" by simp
  note step = write_ranges_step [OF i, of LineStart Ranges Out]
  show ?case
  proof (cases "j = i")
    case True
    have a: "write_ranges LineStart Ranges (Suc i) n ?Out' ! (i * 2) = ?Out' ! (i * 2)"
      by (rule write_ranges_below) simp
    have b: "write_ranges LineStart Ranges (Suc i) n ?Out' ! (i * 2 + 1) = ?Out' ! (i * 2 + 1)"
      by (rule write_ranges_below) simp
    have len: "i * 2 + 1 < length Out"
      using i "1.prems"(3) by simp
    show ?thesis
      unfolding step True a b using len by simp
  next
    case False
    then have le: "Suc i \<le> j" using "1.prems"(1) by simp
    have len: "n * 2 \<le> length ?Out'" using "1.prems"(3) by simp
    show ?thesis
      unfolding step by (rule "1.IH" [OF i le "1.prems"(2) len])
  qed
qed

text \<open>
  C6 (as the code has it). For a diagnostic with a valid location and one of the four
  severities, unpacked into an array with room for the ranges,
  \<^verbatim>\<open>LLVMRustUnpackSMDiagnostic\<close> returns true; the number of ranges it emits is the smaller
  of the caller's maximum and the number of ranges of the diagnostic; and emitted range
  \<open>i\<close> is the diagnostic's column range \<open>i\<close> with \<^verbatim>\<open>LineStart = *LocOut - ColumnNo\<close>,
  the offset of the start of the error's line in the buffer, added to both ends (in
  \<^verbatim>\<open>size_t\<close>, cut to \<^verbatim>\<open>unsigned\<close>): an offset from the start of the buffer. The rest of the
  array is left as it was.
\<close>

theorem unpack_ranges_count_and_buffer_offsets:
  assumes "SMDiagnostic_getLoc D \<noteq> 0"
    and "SMDiagnostic_level (SMDiagnostic_getKind D) = Inr level"
    and "min (NumRanges out) (length (SMDiagnostic_getRanges D)) * 2 \<le> length (RangesOut out)"
  shows "\<exists>out'.
     LLVMRustUnpackSMDiagnostic D out = Inr (True, out') \<and>
     NumRanges out' = min (NumRanges out) (length (SMDiagnostic_getRanges D)) \<and>
     LocOut out' = ucast (SMDiagnostic_getLoc D - getBufferStart (SMDiagnostic_LBuf D)) \<and>
     length (RangesOut out') = length (RangesOut out) \<and>
     (\<forall>i<NumRanges out'.
        RangesOut out' ! (i * 2)
          = ucast ((ucast (LocOut out') - scast (SMDiagnostic_getColumnNo D) :: 64 word)
                   + ucast (fst (SMDiagnostic_getRanges D ! i))) \<and>
        RangesOut out' ! (i * 2 + 1)
          = ucast ((ucast (LocOut out') - scast (SMDiagnostic_getColumnNo D) :: 64 word)
                   + ucast (snd (SMDiagnostic_getRanges D ! i)))) \<and>
     (\<forall>k\<ge>NumRanges out' * 2. RangesOut out' ! k = RangesOut out ! k)"
proof -
  define n where "n = min (NumRanges out) (length (SMDiagnostic_getRanges D))"
  define Loc :: "32 word"
    where "Loc = ucast (SMDiagnostic_getLoc D - getBufferStart (SMDiagnostic_LBuf D))"
  define LineStart :: "64 word"
    where "LineStart = ucast Loc - scast (SMDiagnostic_getColumnNo D)"
  define Out where "Out = write_ranges LineStart (SMDiagnostic_getRanges D) 0 n (RangesOut out)"
  define out' where "out' =
    out\<lparr>MessageOut := MessageOut out @ SMDiagnostic_getMessage D, LevelOut := level,
        BufferOut := BufferOut out @ getBuffer (SMDiagnostic_LBuf D), LocOut := Loc,
        NumRanges := n, RangesOut := Out\<rparr>"
  have res: "LLVMRustUnpackSMDiagnostic D out = Inr (True, out')"
    using assms(1,2)
    by (simp add: LLVMRustUnpackSMDiagnostic_def Let_def out'_def Out_def LineStart_def
        Loc_def n_def)
  have sel: "NumRanges out' = n" "LocOut out' = Loc" "RangesOut out' = Out"
    by (simp_all add: out'_def)
  have cap: "n * 2 \<le> length (RangesOut out)"
    using assms(3) by (simp add: n_def)
  have len: "length Out = length (RangesOut out)"
    by (simp add: Out_def length_write_ranges)
  have written: "Out ! (i * 2) = ucast (LineStart + ucast (fst (SMDiagnostic_getRanges D ! i))) \<and>
      Out ! (i * 2 + 1) = ucast (LineStart + ucast (snd (SMDiagnostic_getRanges D ! i)))"
    if "i < n" for i
    unfolding Out_def using that cap by (intro write_ranges_written) simp_all
  have rest: "Out ! k = RangesOut out ! k" if "n * 2 \<le> k" for k
    unfolding Out_def using that by (rule write_ranges_above)
  show ?thesis
  proof (intro exI conjI allI impI)
    show "LLVMRustUnpackSMDiagnostic D out = Inr (True, out')" by (rule res)
    show "NumRanges out' = min (NumRanges out) (length (SMDiagnostic_getRanges D))"
      by (simp add: sel n_def)
    show "LocOut out' = ucast (SMDiagnostic_getLoc D - getBufferStart (SMDiagnostic_LBuf D))"
      by (simp add: sel Loc_def)
    show "length (RangesOut out') = length (RangesOut out)"
      by (simp add: sel len)
    show "RangesOut out' ! (i * 2)
          = ucast ((ucast (LocOut out') - scast (SMDiagnostic_getColumnNo D) :: 64 word)
                   + ucast (fst (SMDiagnostic_getRanges D ! i)))"
      if "i < NumRanges out'" for i
      using written [of i] that by (simp add: sel LineStart_def)
    show "RangesOut out' ! (i * 2 + 1)
          = ucast ((ucast (LocOut out') - scast (SMDiagnostic_getColumnNo D) :: 64 word)
                   + ucast (snd (SMDiagnostic_getRanges D ! i)))"
      if "i < NumRanges out'" for i
      using written [of i] that by (simp add: sel LineStart_def)
    show "RangesOut out' ! k = RangesOut out ! k" if "NumRanges out' * 2 \<le> k" for k
      using rest [of k] that by (simp add: sel)
  qed
qed

theorem unpack_ranges_count_and_buffer_offsets_witness:
  "SMDiagnostic_getLoc example_D \<noteq> 0 \<and>
   SMDiagnostic_level (SMDiagnostic_getKind example_D) = Inr LLVMRustDiagnosticLevel_Error \<and>
   min (NumRanges example_out) (length (SMDiagnostic_getRanges example_D)) * 2
     \<le> length (RangesOut example_out) \<and>
   (\<exists>out'.
      LLVMRustUnpackSMDiagnostic example_D example_out = Inr (True, out') \<and>
      NumRanges out' = 1 \<and> LocOut out' = 11 \<and>
      RangesOut out' ! 0 = 11 \<and> RangesOut out' ! 1 = 17 \<and> RangesOut out' ! 2 = 0)"
proof -
  have 1: "SMDiagnostic_getLoc example_D \<noteq> 0"
    by (simp add: example_D_def)
  have 2: "SMDiagnostic_level (SMDiagnostic_getKind example_D) = Inr LLVMRustDiagnosticLevel_Error"
    by (simp add: example_D_def)
  have 3: "min (NumRanges example_out) (length (SMDiagnostic_getRanges example_D)) * 2
     \<le> length (RangesOut example_out)"
    by (simp add: example_D_def example_out_def)
  from unpack_ranges_count_and_buffer_offsets [OF 1 2 3] obtain out' where
    r: "LLVMRustUnpackSMDiagnostic example_D example_out = Inr (True, out')"
    and n: "NumRanges out' = min (NumRanges example_out) (length (SMDiagnostic_getRanges example_D))"
    and l: "LocOut out'
      = ucast (SMDiagnostic_getLoc example_D - getBufferStart (SMDiagnostic_LBuf example_D))"
    and w: "\<forall>i<NumRanges out'.
        RangesOut out' ! (i * 2)
          = ucast ((ucast (LocOut out') - scast (SMDiagnostic_getColumnNo example_D) :: 64 word)
                   + ucast (fst (SMDiagnostic_getRanges example_D ! i))) \<and>
        RangesOut out' ! (i * 2 + 1)
          = ucast ((ucast (LocOut out') - scast (SMDiagnostic_getColumnNo example_D) :: 64 word)
                   + ucast (snd (SMDiagnostic_getRanges example_D ! i)))"
    and k: "\<forall>k\<ge>NumRanges out' * 2. RangesOut out' ! k = RangesOut example_out ! k"
    by blast
  have n1: "NumRanges out' = 1"
    using n by (simp add: example_D_def example_out_def)
  have l1: "LocOut out' = 11"
    using l by (simp add: example_D_def)
  have "RangesOut out' ! 0 = 11 \<and> RangesOut out' ! 1 = 17"
    using w [rule_format, of 0] n1 l1 by (simp add: example_D_def)
  moreover have "RangesOut out' ! 2 = 0"
    using k [rule_format, of 2] n1 by (simp add: example_out_def)
  ultimately show ?thesis using 1 2 3 r n1 l1 by blast
qed

theorem unpack_ranges_not_relative_to_line:
  "LLVMRustUnpackSMDiagnostic example_D example_out = Inr (True, example_unpacked) \<and>
   \<not> spec_ranges_relative_to_line example_D example_unpacked"
proof
  have w: "write_ranges LineStart Ranges 0 (Suc 0) Out
      = Out[0 := ucast (LineStart + ucast (fst (Ranges ! 0))),
            Suc 0 := ucast (LineStart + ucast (snd (Ranges ! 0)))]" for LineStart Ranges Out
    by (subst write_ranges.simps, subst write_ranges.simps) simp
  show "LLVMRustUnpackSMDiagnostic example_D example_out = Inr (True, example_unpacked)"
    by (simp add: LLVMRustUnpackSMDiagnostic_def Let_def example_D_def example_out_def
        example_unpacked_def w)
  show "\<not> spec_ranges_relative_to_line example_D example_unpacked"
    by (simp add: spec_ranges_relative_to_line_def example_D_def example_unpacked_def)
qed

end
